theory Spec2Isabelle
  imports Complex_Main
begin

section \<open>Conventions of the embedding\<close>

text \<open>
  The program is a PyTorch transformer (\<^verbatim>\<open>gpt.py\<close>) and its training script
  (\<^verbatim>\<open>train.py\<close>). Tensors are nested lists; floating-point numbers are read as
  real numbers, with the two infinities the source writes out (\<^verbatim>\<open>float('-inf')\<close>,
  \<^verbatim>\<open>float('inf')\<close>) as separate values. Every exception that the source or a
  tensor operation raises is a value of type \<open>error\<close>; a computation that can raise
  returns \<open>error + 'a\<close>.

  The pseudo-random generator of the tensor library is external. It is modelled as
  an explicit stream of draws (\<open>rng\<close>); an operation that samples takes the stream
  and returns the rest of it.
\<close>

datatype error =
    IndexError | RuntimeError | ZeroDivisionError | FileNotFoundError
  | KeyError | AttributeError | TypeError | ExternalError

type_synonym vec = "real list"
type_synonym mat = "real list list"
type_synonym tensor3 = "real list list list"
type_synonym rng = "nat \<Rightarrow> real"

definition ebind :: "'e + 'a \<Rightarrow> ('a \<Rightarrow> 'e + 'b) \<Rightarrow> 'e + 'b" where
  "ebind r f = (case r of Inl e \<Rightarrow> Inl e | Inr v \<Rightarrow> f v)"

text \<open>Module constants of \<^verbatim>\<open>gpt.py\<close>. \<^verbatim>\<open>train.py\<close> imports \<open>BATCH_SIZE\<close> from
  \<^verbatim>\<open>gpt.py\<close>, which does not define it: it is a field without a default here.\<close>

record config =
  NUM_LAYERS :: nat
  NUM_HEADS :: nat
  SEQ_LEN :: nat
  EMBED_SIZE :: nat
  DROPOUT :: real
  BATCH_SIZE :: nat

definition gpt_config :: "nat \<Rightarrow> config" where
  "gpt_config batch_size =
     \<lparr>NUM_LAYERS = 6, NUM_HEADS = 6, SEQ_LEN = 256, EMBED_SIZE = 384,
      DROPOUT = 2 / 10, BATCH_SIZE = batch_size\<rparr>"

section \<open>Random draws\<close>

definition rng_skip :: "nat \<Rightarrow> rng \<Rightarrow> rng" where
  "rng_skip n g = (\<lambda>k. g (n + k))"

definition draws :: "nat \<Rightarrow> rng \<Rightarrow> real list" where
  "draws n g = map g [0..<n]"

text \<open>A draw read as a uniform sample of \<open>[0, 1)\<close>.\<close>

definition uniform01 :: "real \<Rightarrow> real" where
  "uniform01 r = r - of_int \<lfloor>r\<rfloor>"

text \<open>\<^verbatim>\<open>torch.randint(high, (n,))\<close>: \<open>n\<close> integers of \<open>[0, high)\<close>; the library
  refuses an empty range.\<close>

definition randint :: "int \<Rightarrow> nat \<Rightarrow> rng \<Rightarrow> error + (nat list \<times> rng)" where
  "randint high n g =
     (if high \<le> 0 then Inl RuntimeError
      else Inr (map (\<lambda>r. nat \<lfloor>uniform01 r * of_int high\<rfloor>) (draws n g), rng_skip n g))"

section \<open>Batch sampling (\<^verbatim>\<open>train.py\<close>)\<close>

text \<open>\<^verbatim>\<open>xs[a:b]\<close> for \<open>0 \<le> a \<le> b\<close>: a slice stops at the end of the sequence.\<close>

definition py_slice :: "'a list \<Rightarrow> nat \<Rightarrow> nat \<Rightarrow> 'a list" where
  "py_slice xs a b = take (b - a) (drop a xs)"

text \<open>\<^verbatim>\<open>torch.stack\<close>: the list is not empty and its tensors have one shape.\<close>

definition stack :: "'a list list \<Rightarrow> error + 'a list list" where
  "stack ts =
     (case ts of [] \<Rightarrow> Inl RuntimeError
      | t # _ \<Rightarrow> if list_all (\<lambda>u. length u = length t) ts then Inr ts else Inl RuntimeError)"

datatype split = TRAIN | EVAL

type_synonym tokens = "int list"
type_synonym batch = "int list list \<times> int list list"

definition get_batch ::
  "config \<Rightarrow> (split \<Rightarrow> tokens) \<Rightarrow> split \<Rightarrow> rng \<Rightarrow> error + (batch \<times> rng)" where
  "get_batch cfg DATA split g =
     (let data = DATA split in
      ebind (randint (int (length data) - int (SEQ_LEN cfg)) (BATCH_SIZE cfg) g) (\<lambda>(ix, g').
      ebind (stack (map (\<lambda>i. py_slice data i (i + SEQ_LEN cfg)) ix)) (\<lambda>x.
      ebind (stack (map (\<lambda>i. py_slice data (i + 1) (i + 1 + SEQ_LEN cfg)) ix)) (\<lambda>y.
      Inr ((x, y), g')))))"

section \<open>Tensor operations used by \<^verbatim>\<open>gpt.py\<close>\<close>

text \<open>A tensor of shape \<open>(B, T, C)\<close> is a list of \<open>B\<close> matrices of \<open>T\<close> rows of \<open>C\<close> numbers.\<close>

definition shape3 :: "nat \<Rightarrow> nat \<Rightarrow> nat \<Rightarrow> 'a list list list \<Rightarrow> bool" where
  "shape3 B T C x \<longleftrightarrow>
     length x = B \<and> list_all (\<lambda>m. length m = T \<and> list_all (\<lambda>r. length r = C) m) x"

definition shape2 :: "nat \<Rightarrow> nat \<Rightarrow> 'a list list \<Rightarrow> bool" where
  "shape2 T C m \<longleftrightarrow> length m = T \<and> list_all (\<lambda>r. length r = C) m"

definition dot :: "vec \<Rightarrow> vec \<Rightarrow> real" where
  "dot u v = sum_list (map2 (*) u v)"

text \<open>\<^verbatim>\<open>a @ b\<close> for \<open>a\<close> of shape \<open>(T, K)\<close> and \<open>b\<close> of shape \<open>(K, n)\<close>.\<close>

definition matmul :: "mat \<Rightarrow> mat \<Rightarrow> nat \<Rightarrow> mat" where
  "matmul a b n = map (\<lambda>r. map (\<lambda>c. sum_list (map2 (\<lambda>w u. w * u ! c) r b)) [0..<n]) a"

subsection \<open>\<^verbatim>\<open>nn.Linear\<close>, \<^verbatim>\<open>nn.Embedding\<close>, \<^verbatim>\<open>nn.LayerNorm\<close>, \<^verbatim>\<open>nn.Dropout\<close>\<close>

record Linear =
  in_features :: nat
  out_features :: nat
  weight :: mat
  bias :: "vec option"

definition Linear_row :: "Linear \<Rightarrow> vec \<Rightarrow> vec" where
  "Linear_row l r =
     map (\<lambda>j. dot r (weight l ! j) + (case bias l of None \<Rightarrow> 0 | Some b \<Rightarrow> b ! j))
       [0..<out_features l]"

definition Linear_forward :: "Linear \<Rightarrow> tensor3 \<Rightarrow> error + tensor3" where
  "Linear_forward l x =
     (if list_all (list_all (\<lambda>r. length r = in_features l)) x
      then Inr (map (map (Linear_row l)) x) else Inl RuntimeError)"

record Embedding =
  num_embeddings :: nat
  embedding_dim :: nat
  emb_weight :: mat

text \<open>An index outside the table raises; a negative index does not wrap.\<close>

definition Embedding_forward1 :: "Embedding \<Rightarrow> int list \<Rightarrow> error + mat" where
  "Embedding_forward1 e ids =
     (if list_all (\<lambda>i. 0 \<le> i \<and> i < int (num_embeddings e)) ids
      then Inr (map (\<lambda>i. emb_weight e ! nat i) ids) else Inl IndexError)"

definition Embedding_forward :: "Embedding \<Rightarrow> int list list \<Rightarrow> error + tensor3" where
  "Embedding_forward e idx =
     (if list_all (list_all (\<lambda>i. 0 \<le> i \<and> i < int (num_embeddings e))) idx
      then Inr (map (map (\<lambda>i. emb_weight e ! nat i)) idx) else Inl IndexError)"

record LayerNorm =
  normalized_shape :: nat
  ln_weight :: vec
  ln_bias :: vec
  eps :: real

definition mean :: "vec \<Rightarrow> real" where
  "mean r = sum_list r / real (length r)"

definition var :: "vec \<Rightarrow> real" where
  "var r = sum_list (map (\<lambda>a. (a - mean r)\<^sup>2) r) / real (length r)"

definition LayerNorm_row :: "LayerNorm \<Rightarrow> vec \<Rightarrow> vec" where
  "LayerNorm_row nl r =
     map (\<lambda>j. (r ! j - mean r) / sqrt (var r + eps nl) * ln_weight nl ! j + ln_bias nl ! j)
       [0..<length r]"

definition LayerNorm_forward :: "LayerNorm \<Rightarrow> tensor3 \<Rightarrow> error + tensor3" where
  "LayerNorm_forward nl x =
     (if list_all (list_all (\<lambda>r. length r = normalized_shape nl)) x
      then Inr (map (map (LayerNorm_row nl)) x) else Inl RuntimeError)"

text \<open>Each module has a \<open>training\<close> flag, set on construction and switched by
  \<^verbatim>\<open>train()\<close> and \<^verbatim>\<open>eval()\<close>; only \<^verbatim>\<open>nn.Dropout\<close> reads it, so the flag is
  kept there.\<close>

record Dropout =
  drop_p :: real
  training :: bool

definition nn_Dropout :: "real \<Rightarrow> Dropout" where
  "nn_Dropout q = \<lparr>drop_p = q, training = True\<rparr>"

primrec map_rng :: "('a \<Rightarrow> rng \<Rightarrow> 'b \<times> rng) \<Rightarrow> 'a list \<Rightarrow> rng \<Rightarrow> 'b list \<times> rng" where
  "map_rng f [] g = ([], g)"
| "map_rng f (x # xs) g =
     (case f x g of (y, g1) \<Rightarrow> (case map_rng f xs g1 of (ys, g2) \<Rightarrow> (y # ys, g2)))"

text \<open>An element is zeroed with probability \<open>p\<close>, and scaled by \<open>1 / (1 - p)\<close> otherwise.\<close>

definition dropout_elem :: "real \<Rightarrow> real \<Rightarrow> real \<Rightarrow> real" where
  "dropout_elem q u a = (if uniform01 u < q then 0 else a / (1 - q))"

definition dropout_vec :: "real \<Rightarrow> vec \<Rightarrow> rng \<Rightarrow> vec \<times> rng" where
  "dropout_vec q v g = (map2 (dropout_elem q) (draws (length v) g) v, rng_skip (length v) g)"

definition Dropout_forward :: "Dropout \<Rightarrow> tensor3 \<Rightarrow> rng \<Rightarrow> tensor3 \<times> rng" where
  "Dropout_forward d x g =
     (if training d then map_rng (map_rng (dropout_vec (drop_p d))) x g else (x, g))"

subsection \<open>Masking and softmax\<close>

text \<open>An attention score after \<^verbatim>\<open>masked_fill(mask, float('-inf'))\<close>.\<close>

datatype score = Score real | MinusInf

definition torch_ones :: "nat \<Rightarrow> nat \<Rightarrow> mat" where
  "torch_ones n m = replicate n (replicate m 1)"

definition torch_tril :: "mat \<Rightarrow> mat" where
  "torch_tril a =
     map (\<lambda>i. map (\<lambda>j. if j \<le> i then a ! i ! j else 0) [0..<length (a ! i)]) [0..<length a]"

text \<open>\<^verbatim>\<open>w.masked_fill(mask, float('-inf'))\<close> for \<open>w\<close> of shape \<open>(B, T, T)\<close> and a square
  mask: the mask has the shape of the matrices of \<open>w\<close>, or is \<open>1 \<times> 1\<close> and broadcast;
  any other shape is refused.\<close>

definition masked_fill :: "tensor3 \<Rightarrow> bool list list \<Rightarrow> error + score list list list" where
  "masked_fill w msk =
     (if list_all (\<lambda>m. list_all2 (\<lambda>r k. length r = length k) m msk) w
      then Inr (map (\<lambda>m. map2 (map2 (\<lambda>a b. if b then MinusInf else Score a)) m msk) w)
      else if length msk = 1 \<and> length (msk ! 0) = 1
      then Inr (map (map (map (\<lambda>a. if msk ! 0 ! 0 then MinusInf else Score a))) w)
      else Inl RuntimeError)"

fun exp_score :: "score \<Rightarrow> real" where
  "exp_score (Score a) = exp a"
| "exp_score MinusInf = 0"

definition softmax_score :: "score list \<Rightarrow> vec" where
  "softmax_score r = map (\<lambda>a. exp_score a / sum_list (map exp_score r)) r"

definition softmax :: "vec \<Rightarrow> vec" where
  "softmax r = map (\<lambda>a. exp a / sum_list (map exp r)) r"

section \<open>One head of self-attention (\<^verbatim>\<open>Head\<close>)\<close>

record Head =
  head_size :: nat
  key :: Linear
  query :: Linear
  "value" :: Linear
  tril :: mat
  head_dropout :: Dropout

text \<open>Lines 37 to 43 of \<^verbatim>\<open>Head.forward\<close>: the attention weights \<^verbatim>\<open>wei\<close> after
  the softmax. \<open>T\<close> is the number of rows of the matrices of \<open>x\<close>.\<close>

definition Head_scores :: "Head \<Rightarrow> tensor3 \<Rightarrow> error + tensor3" where
  "Head_scores h x =
     ebind (Linear_forward (key h) x) (\<lambda>k.
     ebind (Linear_forward (query h) x) (\<lambda>q.
     Inr (map2 (\<lambda>qm km. map (\<lambda>qi. map (\<lambda>kj. dot qi kj / sqrt (real (out_features (key h)))) km) qm)
            q k)))"

definition tril_mask :: "Head \<Rightarrow> nat \<Rightarrow> bool list list" where
  "tril_mask h T = map (map (\<lambda>a. a = 0)) (map (take T) (take T (tril h)))"

definition Head_attention :: "Head \<Rightarrow> tensor3 \<Rightarrow> error + tensor3" where
  "Head_attention h x =
     (let T = (case x of [] \<Rightarrow> 0 | m # _ \<Rightarrow> length m) in
      ebind (Head_scores h x) (\<lambda>wei.
      ebind (masked_fill wei (tril_mask h T)) (\<lambda>wei.
      Inr (map (map softmax_score) wei))))"

text \<open>Line 44: the weights after \<^verbatim>\<open>self.dropout\<close>.\<close>

definition Head_weights :: "Head \<Rightarrow> tensor3 \<Rightarrow> rng \<Rightarrow> error + (tensor3 \<times> rng)" where
  "Head_weights h x g =
     ebind (Head_attention h x) (\<lambda>wei. Inr (Dropout_forward (head_dropout h) wei g))"

definition Head_forward :: "Head \<Rightarrow> tensor3 \<Rightarrow> rng \<Rightarrow> error + (tensor3 \<times> rng)" where
  "Head_forward h x g =
     ebind (Head_weights h x g) (\<lambda>(wei, g').
     ebind (Linear_forward (value h) x) (\<lambda>v.
     Inr (map2 (\<lambda>wm vm. matmul wm vm (out_features (value h))) wei v, g')))"

section \<open>Multi-head attention, feed-forward and transformer block\<close>

primrec emap_rng ::
  "('a \<Rightarrow> rng \<Rightarrow> error + ('b \<times> rng)) \<Rightarrow> 'a list \<Rightarrow> rng \<Rightarrow> error + ('b list \<times> rng)" where
  "emap_rng f [] g = Inr ([], g)"
| "emap_rng f (x # xs) g =
     ebind (f x g) (\<lambda>(y, g1). ebind (emap_rng f xs g1) (\<lambda>(ys, g2). Inr (y # ys, g2)))"

text \<open>\<^verbatim>\<open>torch.cat(ts, dim=-1)\<close> on tensors of three dimensions: the list is not empty and
  the tensors agree in their first two dimensions.\<close>

definition cat_last :: "tensor3 list \<Rightarrow> error + tensor3" where
  "cat_last ts =
     (case ts of [] \<Rightarrow> Inl RuntimeError
      | t # _ \<Rightarrow>
          if list_all (\<lambda>u. list_all2 (\<lambda>um tm. length um = length tm) u t) ts
          then Inr (map (\<lambda>b. map (\<lambda>i. concat (map (\<lambda>u. u ! b ! i) ts)) [0..<length (t ! b)])
                      [0..<length t])
          else Inl RuntimeError)"

text \<open>\<^verbatim>\<open>x + y\<close> on tensors of the same shape.\<close>

definition add3 :: "tensor3 \<Rightarrow> tensor3 \<Rightarrow> error + tensor3" where
  "add3 x y =
     (if list_all2 (list_all2 (\<lambda>r s. length r = length s)) x y
      then Inr (map2 (map2 (map2 (+))) x y) else Inl RuntimeError)"

text \<open>\<^verbatim>\<open>tok_emb + pos_emb\<close>: a \<open>(B, T, C)\<close> tensor plus a \<open>(T, C)\<close> matrix, added to
  each batch element.\<close>

definition add_broadcast :: "tensor3 \<Rightarrow> mat \<Rightarrow> error + tensor3" where
  "add_broadcast x y =
     (if list_all (\<lambda>m. list_all2 (\<lambda>r s. length r = length s) m y) x
      then Inr (map (\<lambda>m. map2 (map2 (+)) m y) x) else Inl RuntimeError)"

definition relu :: "tensor3 \<Rightarrow> tensor3" where
  "relu x = map (map (map (max 0))) x"

record MultiHeadAttention =
  heads :: "Head list"
  proj :: Linear
  mha_dropout :: Dropout

definition MultiHeadAttention_forward ::
  "MultiHeadAttention \<Rightarrow> tensor3 \<Rightarrow> rng \<Rightarrow> error + (tensor3 \<times> rng)" where
  "MultiHeadAttention_forward m x g =
     ebind (emap_rng (\<lambda>h. Head_forward h x) (heads m) g) (\<lambda>(outs, g1).
     ebind (cat_last outs) (\<lambda>out.
     ebind (Linear_forward (proj m) out) (\<lambda>out.
     Inr (Dropout_forward (mha_dropout m) out g1))))"

text \<open>\<open>net\<close> is \<^verbatim>\<open>nn.Sequential(Linear, ReLU, Linear, Dropout)\<close>; the fields are its
  entries 0, 2 and 3.\<close>

record FeedForward =
  net_0 :: Linear
  net_2 :: Linear
  net_3 :: Dropout

definition FeedForward_forward :: "FeedForward \<Rightarrow> tensor3 \<Rightarrow> rng \<Rightarrow> error + (tensor3 \<times> rng)" where
  "FeedForward_forward f x g =
     ebind (Linear_forward (net_0 f) x) (\<lambda>h.
     ebind (Linear_forward (net_2 f) (relu h)) (\<lambda>h.
     Inr (Dropout_forward (net_3 f) h g)))"

record Block =
  sa :: MultiHeadAttention
  ffwd :: FeedForward
  ln1 :: LayerNorm
  ln2 :: LayerNorm

definition Block_forward :: "Block \<Rightarrow> tensor3 \<Rightarrow> rng \<Rightarrow> error + (tensor3 \<times> rng)" where
  "Block_forward b x g =
     ebind (LayerNorm_forward (ln1 b) x) (\<lambda>h.
     ebind (MultiHeadAttention_forward (sa b) h g) (\<lambda>(a, g1).
     ebind (add3 x a) (\<lambda>x.
     ebind (LayerNorm_forward (ln2 b) x) (\<lambda>h.
     ebind (FeedForward_forward (ffwd b) h g1) (\<lambda>(f, g2).
     ebind (add3 x f) (\<lambda>x.
     Inr (x, g2)))))))"

section \<open>The model (\<^verbatim>\<open>GPT\<close>)\<close>

record GPT =
  token_embedding_table :: Embedding
  position_embedding_table :: Embedding
  blocks :: "Block list"
  ln_f :: LayerNorm
  lm_head :: Linear

primrec Sequential_forward :: "Block list \<Rightarrow> tensor3 \<Rightarrow> rng \<Rightarrow> error + (tensor3 \<times> rng)" where
  "Sequential_forward [] x g = Inr (x, g)"
| "Sequential_forward (b # bs) x g =
     ebind (Block_forward b x g) (\<lambda>(x, g1). Sequential_forward bs x g1)"

text \<open>\<^verbatim>\<open>F.cross_entropy(logits, targets)\<close> on \<open>(N, C)\<close> logits and \<open>N\<close> class indices,
  averaged over the targets other than the ignored index \<open>-100\<close>.\<close>

definition cross_entropy :: "mat \<Rightarrow> int list \<Rightarrow> error + real" where
  "cross_entropy lg tg =
     (let pairs = filter (\<lambda>(r, t). t \<noteq> - 100) (zip lg tg) in
      if list_all (\<lambda>(r, t). 0 \<le> t \<and> t < int (length r)) pairs
      then Inr (sum_list (map (\<lambda>(r, t). - ln (softmax r ! nat t)) pairs) / real (length pairs))
      else Inl IndexError)"

text \<open>With targets the source returns the logits reshaped to \<open>(B * T, C)\<close>.\<close>

datatype logits = Logits3 tensor3 | Logits2 mat

definition GPT_forward ::
  "GPT \<Rightarrow> int list list \<Rightarrow> int list list option \<Rightarrow> rng
     \<Rightarrow> error + ((logits \<times> real option) \<times> rng)" where
  "GPT_forward m idx targets g =
     (let T = (case idx of [] \<Rightarrow> 0 | r # _ \<Rightarrow> length r) in
      ebind (Embedding_forward (token_embedding_table m) idx) (\<lambda>tok_emb.
      ebind (Embedding_forward1 (position_embedding_table m) (map int [0..<T])) (\<lambda>pos_emb.
      ebind (add_broadcast tok_emb pos_emb) (\<lambda>x.
      ebind (Sequential_forward (blocks m) x g) (\<lambda>(x, g1).
      ebind (LayerNorm_forward (ln_f m) x) (\<lambda>x.
      ebind (Linear_forward (lm_head m) x) (\<lambda>lg.
      case targets of
        None \<Rightarrow> Inr ((Logits3 lg, None), g1)
      | Some tg \<Rightarrow>
          if length (concat tg) \<noteq> length (concat lg) then Inl RuntimeError
          else ebind (cross_entropy (concat lg) (concat tg)) (\<lambda>loss.
               Inr ((Logits2 (concat lg), Some loss), g1)))))))))"

subsection \<open>Sampling (\<^verbatim>\<open>GPT.generate\<close>)\<close>

text \<open>\<^verbatim>\<open>idx[:, -SEQ_LEN:]\<close>; for \<open>SEQ_LEN = 0\<close> the slice \<^verbatim>\<open>[-0:]\<close> is the whole row.\<close>

definition crop :: "nat \<Rightarrow> int list list \<Rightarrow> int list list" where
  "crop S idx = map (\<lambda>r. if S = 0 then r else drop (length r - S) r) idx"

text \<open>\<^verbatim>\<open>logits[:, -1, :]\<close>: there is no last time step in an empty sequence.\<close>

definition last_step :: "tensor3 \<Rightarrow> error + mat" where
  "last_step lg = (if list_all (\<lambda>m. m \<noteq> []) lg then Inr (map last lg) else Inl IndexError)"

text \<open>One sample of a categorical distribution by inversion of its cumulative sums.\<close>

fun pick :: "vec \<Rightarrow> real \<Rightarrow> nat" where
  "pick [] u = 0"
| "pick [a] u = 0"
| "pick (a # b # ps) u = (if u < a then 0 else Suc (pick (b # ps) (u - a)))"

text \<open>\<^verbatim>\<open>torch.multinomial(probs, num_samples=1)\<close> on \<open>(B, V)\<close> weights: a \<open>(B, 1)\<close> tensor
  of indices. The library refuses an empty row, a negative weight and a row whose
  sum is not positive.\<close>

definition multinomial :: "mat \<Rightarrow> rng \<Rightarrow> error + (int list list \<times> rng)" where
  "multinomial probs g =
     (if list_all (\<lambda>r. r \<noteq> [] \<and> list_all (\<lambda>q. 0 \<le> q) r \<and> 0 < sum_list r) probs
      then Inr (map2 (\<lambda>r u. [int (pick r (uniform01 u * sum_list r))]) probs
                  (draws (length probs) g),
                rng_skip (length probs) g)
      else Inl RuntimeError)"

text \<open>\<^verbatim>\<open>torch.cat((idx, next_idx), dim=1)\<close>.\<close>

definition cat_dim1 :: "int list list \<Rightarrow> int list list \<Rightarrow> error + int list list" where
  "cat_dim1 x y = (if length x = length y then Inr (map2 (@) x y) else Inl RuntimeError)"

definition generate_step ::
  "config \<Rightarrow> GPT \<Rightarrow> int list list \<Rightarrow> rng \<Rightarrow> error + (int list list \<times> rng)" where
  "generate_step cfg m idx g =
     (let idx_cond = crop (SEQ_LEN cfg) idx in
      ebind (GPT_forward m idx_cond None g) (\<lambda>((lg, loss), g1).
      case lg of
        Logits2 _ \<Rightarrow> Inl IndexError
      | Logits3 lg \<Rightarrow>
          ebind (last_step lg) (\<lambda>lg.
          let probs = map softmax lg in
          ebind (multinomial probs g1) (\<lambda>(next_idx, g2).
          ebind (cat_dim1 idx next_idx) (\<lambda>idx.
          Inr (idx, g2))))))"

text \<open>The loop \<^verbatim>\<open>for _ in range(max_new_tokens)\<close>, by recursion on the number of
  iterations left.\<close>

fun generate_loop ::
  "config \<Rightarrow> GPT \<Rightarrow> nat \<Rightarrow> int list list \<Rightarrow> rng \<Rightarrow> error + (int list list \<times> rng)" where
  "generate_loop cfg m 0 idx g = Inr (idx, g)"
| "generate_loop cfg m (Suc n) idx g =
     ebind (generate_step cfg m idx g) (\<lambda>(idx, g1). generate_loop cfg m n idx g1)"

definition GPT_generate ::
  "config \<Rightarrow> GPT \<Rightarrow> int list list \<Rightarrow> int \<Rightarrow> rng \<Rightarrow> error + (int list list \<times> rng)" where
  "GPT_generate cfg m idx max_new_tokens g = generate_loop cfg m (nat max_new_tokens) idx g"

section \<open>Construction and initialisation\<close>

text \<open>A fresh tensor is filled from the stream of draws, row by row.\<close>

definition randn :: "nat \<Rightarrow> nat \<Rightarrow> rng \<Rightarrow> mat \<times> rng" where
  "randn rows cols g =
     (map (\<lambda>i. map (\<lambda>j. g (i * cols + j)) [0..<cols]) [0..<rows], rng_skip (rows * cols) g)"

definition nn_Linear :: "nat \<Rightarrow> nat \<Rightarrow> bool \<Rightarrow> rng \<Rightarrow> Linear \<times> rng" where
  "nn_Linear n_in n_out with_bias g =
     (case randn n_out n_in g of (w, g1) \<Rightarrow>
        if with_bias
        then (\<lparr>in_features = n_in, out_features = n_out, weight = w,
               bias = Some (draws n_out g1)\<rparr>, rng_skip n_out g1)
        else (\<lparr>in_features = n_in, out_features = n_out, weight = w, bias = None\<rparr>, g1))"

definition nn_Embedding :: "nat \<Rightarrow> nat \<Rightarrow> rng \<Rightarrow> Embedding \<times> rng" where
  "nn_Embedding n d g =
     (case randn n d g of (w, g1) \<Rightarrow>
        (\<lparr>num_embeddings = n, embedding_dim = d, emb_weight = w\<rparr>, g1))"

definition nn_LayerNorm :: "nat \<Rightarrow> LayerNorm" where
  "nn_LayerNorm n =
     \<lparr>normalized_shape = n, ln_weight = replicate n 1, ln_bias = replicate n 0,
      eps = 1 / 100000\<rparr>"

definition Head_init :: "config \<Rightarrow> nat \<Rightarrow> rng \<Rightarrow> Head \<times> rng" where
  "Head_init cfg hs g =
     (case nn_Linear (EMBED_SIZE cfg) hs False g of (k, g1) \<Rightarrow>
      case nn_Linear (EMBED_SIZE cfg) hs False g1 of (q, g2) \<Rightarrow>
      case nn_Linear (EMBED_SIZE cfg) hs False g2 of (v, g3) \<Rightarrow>
        (\<lparr>head_size = hs, key = k, query = q, value = v,
          tril = torch_tril (torch_ones (SEQ_LEN cfg) (SEQ_LEN cfg)),
          head_dropout = nn_Dropout (DROPOUT cfg)\<rparr>, g3))"

definition MultiHeadAttention_init ::
  "config \<Rightarrow> nat \<Rightarrow> nat \<Rightarrow> rng \<Rightarrow> MultiHeadAttention \<times> rng" where
  "MultiHeadAttention_init cfg num_heads hs g =
     (case map_rng (\<lambda>_. Head_init cfg hs) [0..<num_heads] g of (hds, g1) \<Rightarrow>
      case nn_Linear (num_heads * hs) (EMBED_SIZE cfg) True g1 of (pr, g2) \<Rightarrow>
        (\<lparr>heads = hds, proj = pr, mha_dropout = nn_Dropout (DROPOUT cfg)\<rparr>, g2))"

definition FeedForward_init :: "config \<Rightarrow> nat \<Rightarrow> rng \<Rightarrow> FeedForward \<times> rng" where
  "FeedForward_init cfg n_embd g =
     (case nn_Linear n_embd (4 * n_embd) True g of (l0, g1) \<Rightarrow>
      case nn_Linear (4 * n_embd) n_embd True g1 of (l2, g2) \<Rightarrow>
        (\<lparr>net_0 = l0, net_2 = l2, net_3 = nn_Dropout (DROPOUT cfg)\<rparr>, g2))"

text \<open>\<^verbatim>\<open>head_size = num_embd // num_heads\<close>: integer division, which raises for
  \<open>num_heads = 0\<close>. Nothing else in the constructor looks at the remainder.\<close>

definition Block_init :: "config \<Rightarrow> nat \<Rightarrow> nat \<Rightarrow> rng \<Rightarrow> error + (Block \<times> rng)" where
  "Block_init cfg num_embd num_heads g =
     (if num_heads = 0 then Inl ZeroDivisionError
      else let hs = num_embd div num_heads in
        case MultiHeadAttention_init cfg num_heads hs g of (a, g1) \<Rightarrow>
        case FeedForward_init cfg num_embd g1 of (f, g2) \<Rightarrow>
          Inr (\<lparr>sa = a, ffwd = f, ln1 = nn_LayerNorm num_embd, ln2 = nn_LayerNorm num_embd\<rparr>, g2))"

text \<open>\<^verbatim>\<open>torch.nn.init.normal_\<close> overwrites a tensor with normal samples.\<close>

definition init_normal :: "mat \<Rightarrow> real \<Rightarrow> real \<Rightarrow> rng \<Rightarrow> mat \<times> rng" where
  "init_normal w mu sd g =
     map_rng (\<lambda>r g. (map (\<lambda>u. mu + sd * u) (draws (length r) g), rng_skip (length r) g)) w g"

text \<open>The two branches of \<^verbatim>\<open>_init_weights\<close>, and \<^verbatim>\<open>self.apply\<close>, which visits every
  submodule; modules other than \<^verbatim>\<open>nn.Linear\<close> and \<^verbatim>\<open>nn.Embedding\<close> are left as
  they are.\<close>

definition init_weights_Linear :: "Linear \<Rightarrow> rng \<Rightarrow> Linear \<times> rng" where
  "init_weights_Linear l g =
     (case init_normal (weight l) 0 (2 / 100) g of (w, g1) \<Rightarrow>
        (l\<lparr>weight := w, bias := map_option (map (\<lambda>_. 0)) (bias l)\<rparr>, g1))"

definition init_weights_Embedding :: "Embedding \<Rightarrow> rng \<Rightarrow> Embedding \<times> rng" where
  "init_weights_Embedding e g =
     (case init_normal (emb_weight e) 0 (2 / 100) g of (w, g1) \<Rightarrow> (e\<lparr>emb_weight := w\<rparr>, g1))"

definition Head_apply :: "Head \<Rightarrow> rng \<Rightarrow> Head \<times> rng" where
  "Head_apply h g =
     (case init_weights_Linear (key h) g of (k, g1) \<Rightarrow>
      case init_weights_Linear (query h) g1 of (q, g2) \<Rightarrow>
      case init_weights_Linear (value h) g2 of (v, g3) \<Rightarrow>
        (h\<lparr>key := k, query := q, value := v\<rparr>, g3))"

definition MultiHeadAttention_apply :: "MultiHeadAttention \<Rightarrow> rng \<Rightarrow> MultiHeadAttention \<times> rng" where
  "MultiHeadAttention_apply m g =
     (case map_rng Head_apply (heads m) g of (hds, g1) \<Rightarrow>
      case init_weights_Linear (proj m) g1 of (pr, g2) \<Rightarrow>
        (m\<lparr>heads := hds, proj := pr\<rparr>, g2))"

definition FeedForward_apply :: "FeedForward \<Rightarrow> rng \<Rightarrow> FeedForward \<times> rng" where
  "FeedForward_apply f g =
     (case init_weights_Linear (net_0 f) g of (l0, g1) \<Rightarrow>
      case init_weights_Linear (net_2 f) g1 of (l2, g2) \<Rightarrow>
        (f\<lparr>net_0 := l0, net_2 := l2\<rparr>, g2))"

definition Block_apply :: "Block \<Rightarrow> rng \<Rightarrow> Block \<times> rng" where
  "Block_apply b g =
     (case MultiHeadAttention_apply (sa b) g of (a, g1) \<Rightarrow>
      case FeedForward_apply (ffwd b) g1 of (f, g2) \<Rightarrow>
        (b\<lparr>sa := a, ffwd := f\<rparr>, g2))"

definition GPT_apply :: "GPT \<Rightarrow> rng \<Rightarrow> GPT \<times> rng" where
  "GPT_apply m g =
     (case init_weights_Embedding (token_embedding_table m) g of (te, g1) \<Rightarrow>
      case init_weights_Embedding (position_embedding_table m) g1 of (pe, g2) \<Rightarrow>
      case map_rng Block_apply (blocks m) g2 of (bs, g3) \<Rightarrow>
      case init_weights_Linear (lm_head m) g3 of (lh, g4) \<Rightarrow>
        (m\<lparr>token_embedding_table := te, position_embedding_table := pe, blocks := bs,
           lm_head := lh\<rparr>, g4))"

definition GPT_init :: "config \<Rightarrow> nat \<Rightarrow> rng \<Rightarrow> error + (GPT \<times> rng)" where
  "GPT_init cfg vocab_size g =
     (case nn_Embedding vocab_size (EMBED_SIZE cfg) g of (te, g1) \<Rightarrow>
      case nn_Embedding (SEQ_LEN cfg) (EMBED_SIZE cfg) g1 of (pe, g2) \<Rightarrow>
      ebind (emap_rng (\<lambda>_. Block_init cfg (EMBED_SIZE cfg) (NUM_HEADS cfg))
               [0..<NUM_LAYERS cfg] g2) (\<lambda>(bs, g3).
      case nn_Linear (EMBED_SIZE cfg) vocab_size True g3 of (lh, g4) \<Rightarrow>
        Inr (GPT_apply
               \<lparr>token_embedding_table = te, position_embedding_table = pe, blocks = bs,
                ln_f = nn_LayerNorm (EMBED_SIZE cfg), lm_head = lh\<rparr> g4)))"

subsection \<open>\<^verbatim>\<open>train()\<close> and \<^verbatim>\<open>eval()\<close>\<close>

definition Head_train :: "bool \<Rightarrow> Head \<Rightarrow> Head" where
  "Head_train mode h = h\<lparr>head_dropout := (head_dropout h)\<lparr>training := mode\<rparr>\<rparr>"

definition MultiHeadAttention_train :: "bool \<Rightarrow> MultiHeadAttention \<Rightarrow> MultiHeadAttention" where
  "MultiHeadAttention_train mode m =
     m\<lparr>heads := map (Head_train mode) (heads m),
       mha_dropout := (mha_dropout m)\<lparr>training := mode\<rparr>\<rparr>"

definition FeedForward_train :: "bool \<Rightarrow> FeedForward \<Rightarrow> FeedForward" where
  "FeedForward_train mode f = f\<lparr>net_3 := (net_3 f)\<lparr>training := mode\<rparr>\<rparr>"

definition Block_train :: "bool \<Rightarrow> Block \<Rightarrow> Block" where
  "Block_train mode b =
     b\<lparr>sa := MultiHeadAttention_train mode (sa b), ffwd := FeedForward_train mode (ffwd b)\<rparr>"

definition GPT_train :: "bool \<Rightarrow> GPT \<Rightarrow> GPT" where
  "GPT_train mode m = m\<lparr>blocks := map (Block_train mode) (blocks m)\<rparr>"

section \<open>Shapes of a constructed model\<close>

text \<open>The shapes the constructors establish. Training replaces the values of the
  parameters and keeps their shapes.\<close>

definition wf_Linear :: "nat \<Rightarrow> nat \<Rightarrow> Linear \<Rightarrow> bool" where
  "wf_Linear n_in n_out l \<longleftrightarrow>
     in_features l = n_in \<and> out_features l = n_out \<and> shape2 n_out n_in (weight l) \<and>
     (case bias l of None \<Rightarrow> True | Some b \<Rightarrow> length b = n_out)"

definition wf_Embedding :: "nat \<Rightarrow> nat \<Rightarrow> Embedding \<Rightarrow> bool" where
  "wf_Embedding n d e \<longleftrightarrow>
     num_embeddings e = n \<and> embedding_dim e = d \<and> shape2 n d (emb_weight e)"

definition wf_LayerNorm :: "nat \<Rightarrow> LayerNorm \<Rightarrow> bool" where
  "wf_LayerNorm n l \<longleftrightarrow>
     normalized_shape l = n \<and> length (ln_weight l) = n \<and> length (ln_bias l) = n"

definition wf_Head :: "config \<Rightarrow> nat \<Rightarrow> Head \<Rightarrow> bool" where
  "wf_Head cfg hs h \<longleftrightarrow>
     head_size h = hs \<and> wf_Linear (EMBED_SIZE cfg) hs (key h) \<and>
     wf_Linear (EMBED_SIZE cfg) hs (query h) \<and> wf_Linear (EMBED_SIZE cfg) hs (value h) \<and>
     tril h = torch_tril (torch_ones (SEQ_LEN cfg) (SEQ_LEN cfg))"

definition wf_MultiHeadAttention :: "config \<Rightarrow> MultiHeadAttention \<Rightarrow> bool" where
  "wf_MultiHeadAttention cfg m \<longleftrightarrow>
     heads m \<noteq> [] \<and>
     list_all (wf_Head cfg (head_size (hd (heads m)))) (heads m) \<and>
     wf_Linear (length (heads m) * head_size (hd (heads m))) (EMBED_SIZE cfg) (proj m)"

definition wf_FeedForward :: "config \<Rightarrow> FeedForward \<Rightarrow> bool" where
  "wf_FeedForward cfg f \<longleftrightarrow>
     wf_Linear (EMBED_SIZE cfg) (4 * EMBED_SIZE cfg) (net_0 f) \<and>
     wf_Linear (4 * EMBED_SIZE cfg) (EMBED_SIZE cfg) (net_2 f)"

definition wf_Block :: "config \<Rightarrow> Block \<Rightarrow> bool" where
  "wf_Block cfg b \<longleftrightarrow>
     wf_MultiHeadAttention cfg (sa b) \<and> wf_FeedForward cfg (ffwd b) \<and>
     wf_LayerNorm (EMBED_SIZE cfg) (ln1 b) \<and> wf_LayerNorm (EMBED_SIZE cfg) (ln2 b)"

definition wf_GPT :: "config \<Rightarrow> nat \<Rightarrow> GPT \<Rightarrow> bool" where
  "wf_GPT cfg vocab_size m \<longleftrightarrow>
     wf_Embedding vocab_size (EMBED_SIZE cfg) (token_embedding_table m) \<and>
     wf_Embedding (SEQ_LEN cfg) (EMBED_SIZE cfg) (position_embedding_table m) \<and>
     list_all (wf_Block cfg) (blocks m) \<and>
     wf_LayerNorm (EMBED_SIZE cfg) (ln_f m) \<and>
     wf_Linear (EMBED_SIZE cfg) vocab_size (lm_head m)"

section \<open>Checkpoints (\<^verbatim>\<open>train.py\<close>)\<close>

text \<open>\<^verbatim>\<open>state_dict()\<close> lists the parameters and buffers of the module tree, and
  \<^verbatim>\<open>load_state_dict\<close> copies them into a model with the same entries of the same
  sizes, and raises otherwise. A state dict is represented by the module tree it
  was read from; only its tensors are read on loading.\<close>

definition GPT_state_dict :: "GPT \<Rightarrow> GPT" where
  "GPT_state_dict m = m"

definition same_size :: "mat \<Rightarrow> mat \<Rightarrow> bool" where
  "same_size a b \<longleftrightarrow> map length a = map length b"

definition Linear_compatible :: "Linear \<Rightarrow> Linear \<Rightarrow> bool" where
  "Linear_compatible t s \<longleftrightarrow>
     same_size (weight t) (weight s) \<and> map_option length (bias t) = map_option length (bias s)"

definition Embedding_compatible :: "Embedding \<Rightarrow> Embedding \<Rightarrow> bool" where
  "Embedding_compatible t s \<longleftrightarrow> same_size (emb_weight t) (emb_weight s)"

definition LayerNorm_compatible :: "LayerNorm \<Rightarrow> LayerNorm \<Rightarrow> bool" where
  "LayerNorm_compatible t s \<longleftrightarrow>
     length (ln_weight t) = length (ln_weight s) \<and> length (ln_bias t) = length (ln_bias s)"

definition Head_compatible :: "Head \<Rightarrow> Head \<Rightarrow> bool" where
  "Head_compatible t s \<longleftrightarrow>
     same_size (tril t) (tril s) \<and> Linear_compatible (key t) (key s) \<and>
     Linear_compatible (query t) (query s) \<and> Linear_compatible (value t) (value s)"

definition MultiHeadAttention_compatible :: "MultiHeadAttention \<Rightarrow> MultiHeadAttention \<Rightarrow> bool" where
  "MultiHeadAttention_compatible t s \<longleftrightarrow>
     list_all2 Head_compatible (heads t) (heads s) \<and> Linear_compatible (proj t) (proj s)"

definition FeedForward_compatible :: "FeedForward \<Rightarrow> FeedForward \<Rightarrow> bool" where
  "FeedForward_compatible t s \<longleftrightarrow>
     Linear_compatible (net_0 t) (net_0 s) \<and> Linear_compatible (net_2 t) (net_2 s)"

definition Block_compatible :: "Block \<Rightarrow> Block \<Rightarrow> bool" where
  "Block_compatible t s \<longleftrightarrow>
     MultiHeadAttention_compatible (sa t) (sa s) \<and> FeedForward_compatible (ffwd t) (ffwd s) \<and>
     LayerNorm_compatible (ln1 t) (ln1 s) \<and> LayerNorm_compatible (ln2 t) (ln2 s)"

definition GPT_compatible :: "GPT \<Rightarrow> GPT \<Rightarrow> bool" where
  "GPT_compatible t s \<longleftrightarrow>
     Embedding_compatible (token_embedding_table t) (token_embedding_table s) \<and>
     Embedding_compatible (position_embedding_table t) (position_embedding_table s) \<and>
     list_all2 Block_compatible (blocks t) (blocks s) \<and>
     LayerNorm_compatible (ln_f t) (ln_f s) \<and> Linear_compatible (lm_head t) (lm_head s)"

definition Linear_load :: "Linear \<Rightarrow> Linear \<Rightarrow> Linear" where
  "Linear_load t s = t\<lparr>weight := weight s, bias := bias s\<rparr>"

definition Embedding_load :: "Embedding \<Rightarrow> Embedding \<Rightarrow> Embedding" where
  "Embedding_load t s = t\<lparr>emb_weight := emb_weight s\<rparr>"

definition LayerNorm_load :: "LayerNorm \<Rightarrow> LayerNorm \<Rightarrow> LayerNorm" where
  "LayerNorm_load t s = t\<lparr>ln_weight := ln_weight s, ln_bias := ln_bias s\<rparr>"

definition Head_load :: "Head \<Rightarrow> Head \<Rightarrow> Head" where
  "Head_load t s =
     t\<lparr>tril := tril s, key := Linear_load (key t) (key s),
       query := Linear_load (query t) (query s), value := Linear_load (value t) (value s)\<rparr>"

definition MultiHeadAttention_load ::
  "MultiHeadAttention \<Rightarrow> MultiHeadAttention \<Rightarrow> MultiHeadAttention" where
  "MultiHeadAttention_load t s =
     t\<lparr>heads := map2 Head_load (heads t) (heads s), proj := Linear_load (proj t) (proj s)\<rparr>"

definition FeedForward_load :: "FeedForward \<Rightarrow> FeedForward \<Rightarrow> FeedForward" where
  "FeedForward_load t s =
     t\<lparr>net_0 := Linear_load (net_0 t) (net_0 s), net_2 := Linear_load (net_2 t) (net_2 s)\<rparr>"

definition Block_load :: "Block \<Rightarrow> Block \<Rightarrow> Block" where
  "Block_load t s =
     t\<lparr>sa := MultiHeadAttention_load (sa t) (sa s), ffwd := FeedForward_load (ffwd t) (ffwd s),
       ln1 := LayerNorm_load (ln1 t) (ln1 s), ln2 := LayerNorm_load (ln2 t) (ln2 s)\<rparr>"

definition GPT_load_state_dict :: "GPT \<Rightarrow> GPT \<Rightarrow> error + GPT" where
  "GPT_load_state_dict t s =
     (if GPT_compatible t s
      then Inr (t\<lparr>token_embedding_table :=
                     Embedding_load (token_embedding_table t) (token_embedding_table s),
                   position_embedding_table :=
                     Embedding_load (position_embedding_table t) (position_embedding_table s),
                   blocks := map2 Block_load (blocks t) (blocks s),
                   ln_f := LayerNorm_load (ln_f t) (ln_f s),
                   lm_head := Linear_load (lm_head t) (lm_head s)\<rparr>)
      else Inl RuntimeError)"

text \<open>The loss is \<^verbatim>\<open>float('inf')\<close> until the first training step.\<close>

datatype loss_value = Loss real | LossInf

text \<open>The values of the checkpoint dictionary. The state of the optimizer belongs to
  the tensor library and is a type parameter.\<close>

datatype 'o py_value = PyInt int | PyLoss loss_value | ModelState GPT | OptimState 'o

type_synonym 'o checkpoint = "(string \<times> 'o py_value) list"

datatype 'o fs_entry = CheckpointFile "'o checkpoint" | OtherFile

text \<open>The files that \<^verbatim>\<open>os.path.isfile\<close>, \<^verbatim>\<open>torch.save\<close> and \<^verbatim>\<open>torch.load\<close> see. The
  files of the tokenizer and of the tokenized data belong to the external steps.\<close>

type_synonym 'o fs = "string \<Rightarrow> 'o fs_entry option"

text \<open>\<^verbatim>\<open>torch.save\<close> needs a path (the flag \<^verbatim>\<open>--save-checkpoint\<close> has no default);
  \<^verbatim>\<open>torch.load\<close> needs a file that holds a checkpoint.\<close>

definition torch_save :: "'o checkpoint \<Rightarrow> string option \<Rightarrow> 'o fs \<Rightarrow> error + 'o fs" where
  "torch_save obj path fs =
     (case path of None \<Rightarrow> Inl AttributeError | Some f \<Rightarrow> Inr (fs(f \<mapsto> CheckpointFile obj)))"

definition torch_load :: "string \<Rightarrow> 'o fs \<Rightarrow> error + 'o checkpoint" where
  "torch_load f fs =
     (case fs f of None \<Rightarrow> Inl FileNotFoundError
      | Some OtherFile \<Rightarrow> Inl ExternalError
      | Some (CheckpointFile obj) \<Rightarrow> Inr obj)"

definition getitem :: "'o checkpoint \<Rightarrow> string \<Rightarrow> error + 'o py_value" where
  "getitem d k = (case map_of d k of None \<Rightarrow> Inl KeyError | Some v \<Rightarrow> Inr v)"

definition save_checkpoint ::
  "string option \<Rightarrow> int \<Rightarrow> loss_value \<Rightarrow> GPT \<Rightarrow> 'o \<Rightarrow> 'o fs \<Rightarrow> error + 'o fs" where
  "save_checkpoint path epoch loss model optim fs =
     torch_save
       [(''epoch'', PyInt epoch),
        (''model_state_dict'', ModelState (GPT_state_dict model)),
        (''optimizer_state_dict'', OptimState optim),
        (''loss'', PyLoss loss)] path fs"

definition load_checkpoint ::
  "string \<Rightarrow> GPT \<Rightarrow> 'o \<Rightarrow> 'o fs \<Rightarrow> error + ((int \<times> loss_value) \<times> GPT \<times> 'o)" where
  "load_checkpoint path model optim fs =
     ebind (torch_load path fs) (\<lambda>checkpoint.
     ebind (getitem checkpoint ''model_state_dict'') (\<lambda>v.
     case v of ModelState sd \<Rightarrow>
       ebind (GPT_load_state_dict model sd) (\<lambda>model.
       ebind (getitem checkpoint ''optimizer_state_dict'') (\<lambda>v.
       case v of OptimState optim \<Rightarrow>
         ebind (getitem checkpoint ''epoch'') (\<lambda>v.
         case v of PyInt epoch \<Rightarrow>
           ebind (getitem checkpoint ''loss'') (\<lambda>v.
           case v of PyLoss loss \<Rightarrow> Inr ((epoch, loss), model, optim)
           | _ \<Rightarrow> Inl TypeError)
         | _ \<Rightarrow> Inl TypeError)
       | _ \<Rightarrow> Inl TypeError))
     | _ \<Rightarrow> Inl TypeError))"

section \<open>Loss estimation and the training script (\<^verbatim>\<open>train.py\<close>)\<close>

definition EVAL_INTERVAL :: int where
  "EVAL_INTERVAL = 1000"

definition EVAL_ITERS :: nat where
  "EVAL_ITERS = 100"

text \<open>The inner loop of \<^verbatim>\<open>estimate_loss\<close> for one split: the losses of \<open>k\<close> batches.\<close>

fun eval_iters ::
  "config \<Rightarrow> (split \<Rightarrow> tokens) \<Rightarrow> GPT \<Rightarrow> split \<Rightarrow> nat \<Rightarrow> rng \<Rightarrow> error + (real list \<times> rng)" where
  "eval_iters cfg D model sp 0 g = Inr ([], g)"
| "eval_iters cfg D model sp (Suc k) g =
     ebind (get_batch cfg D sp g) (\<lambda>((xb, yb), g1).
     ebind (GPT_forward model xb (Some yb) g1) (\<lambda>((lg, loss), g2).
     case loss of
       None \<Rightarrow> Inl TypeError
     | Some l \<Rightarrow> ebind (eval_iters cfg D model sp k g2) (\<lambda>(ls, g3). Inr (l # ls, g3))))"

text \<open>\<^verbatim>\<open>estimate_loss\<close>: the model is put in evaluation mode, and back in training mode
  at the end. The result is the mean loss of each split, the model and the rest of
  the draws.\<close>

definition estimate_loss ::
  "config \<Rightarrow> (split \<Rightarrow> tokens) \<Rightarrow> GPT \<Rightarrow> rng \<Rightarrow> error + ((real \<times> real) \<times> GPT \<times> rng)" where
  "estimate_loss cfg D model g =
     (let model = GPT_train False model in
      ebind (eval_iters cfg D model TRAIN EVAL_ITERS g) (\<lambda>(lt, g1).
      ebind (eval_iters cfg D model EVAL EVAL_ITERS g1) (\<lambda>(le, g2).
      Inr ((mean lt, mean le), GPT_train True model, g2))))"

text \<open>The command line. A flag that is not given is \<open>None\<close>, except those with a
  default.\<close>

record args =
  arg_train :: "string option"
  arg_eval :: "string option"
  arg_generate :: "int option"
  arg_tokenizer :: string
  arg_save_checkpoint :: "string option"
  arg_load_checkpoint :: "string option"
  arg_checkpoint_interval :: int
  arg_epochs :: int

text \<open>The tokenizer library, the reading of the data files, the optimizer and the
  gradient computation are external. Their results are parameters of the run:
  what \<^verbatim>\<open>get_tokenizer\<close> and \<^verbatim>\<open>preprocess_data\<close> return or raise, the initial
  state of \<^verbatim>\<open>AdamW\<close>, and the effect of \<^verbatim>\<open>zero_grad\<close>, \<^verbatim>\<open>backward\<close> and \<^verbatim>\<open>step\<close>
  on the parameters and the optimizer for a batch and the draws of the forward
  pass.\<close>

record Tokenizer =
  get_vocab_size :: nat
  decode :: "int list \<Rightarrow> string"

record 'o world =
  w_get_tokenizer :: "error + Tokenizer"
  w_preprocess_data :: "error + (tokens \<times> tokens)"
  w_AdamW :: "GPT \<Rightarrow> 'o"
  w_step :: "GPT \<Rightarrow> 'o \<Rightarrow> batch \<Rightarrow> rng \<Rightarrow> GPT \<times> 'o"

text \<open>What the run has done so far, in order.\<close>

datatype event =
    EvGetTokenizer | EvPreprocessData | EvGPT nat | EvAdamW
  | EvLoadCheckpoint string int
  | EvPrintGenerating int | EvGenerate int "int list list" | EvPrint string
  | EvEstimateLoss int | EvStep int
  | EvSaveCheckpoint string int

record 'o state =
  st_DATA :: "split \<Rightarrow> tokens"
  st_model :: GPT
  st_optim :: 'o
  st_loss :: loss_value
  st_rng :: rng
  st_fs :: "'o fs"
  st_trace :: "event list"

type_synonym 'o result = "(error \<times> 'o state) + 'o state"

definition attempt ::
  "'s \<Rightarrow> error + 'a \<Rightarrow> ('a \<Rightarrow> (error \<times> 's) + 'b) \<Rightarrow> (error \<times> 's) + 'b" where
  "attempt s r k = (case r of Inl e \<Rightarrow> Inl (e, s) | Inr v \<Rightarrow> k v)"

definition record_event :: "event \<Rightarrow> 'o state \<Rightarrow> 'o state" where
  "record_event ev s = s\<lparr>st_trace := st_trace s @ [ev]\<rparr>"

text \<open>Python's truth value of an optional flag.\<close>

definition truthy_int :: "int option \<Rightarrow> bool" where
  "truthy_int v = (case v of None \<Rightarrow> False | Some n \<Rightarrow> n \<noteq> 0)"

definition truthy_str :: "string option \<Rightarrow> bool" where
  "truthy_str v = (case v of None \<Rightarrow> False | Some f \<Rightarrow> f \<noteq> [])"

definition isfile :: "'o fs \<Rightarrow> string \<Rightarrow> bool" where
  "isfile fs f \<longleftrightarrow> fs f \<noteq> None"

text \<open>The body of the training loop for epoch \<open>i\<close>; \<open>epoch\<close> is the epoch the loop
  starts at.\<close>

definition train_iter ::
  "'o world \<Rightarrow> config \<Rightarrow> args \<Rightarrow> int \<Rightarrow> int \<Rightarrow> 'o state \<Rightarrow> 'o result" where
  "train_iter w cfg a epoch i s =
     ebind
       (if i \<noteq> epoch \<and> i mod EVAL_INTERVAL = 0
        then attempt s (estimate_loss cfg (st_DATA s) (st_model s) (st_rng s)) (\<lambda>(losses, model, g).
               Inr (record_event (EvEstimateLoss i) (s\<lparr>st_model := model, st_rng := g\<rparr>)))
        else Inr s) (\<lambda>s.
     attempt s (get_batch cfg (st_DATA s) TRAIN (st_rng s)) (\<lambda>((xb, yb), g1).
     attempt s (GPT_forward (st_model s) xb (Some yb) g1) (\<lambda>((lg, loss), g2).
     case loss of
       None \<Rightarrow> Inl (AttributeError, s)
     | Some l \<Rightarrow>
         (case w_step w (st_model s) (st_optim s) (xb, yb) g1 of (model, optim) \<Rightarrow>
          let s = record_event (EvStep i)
                    (s\<lparr>st_model := model, st_optim := optim, st_loss := Loss l, st_rng := g2\<rparr>) in
          if i \<noteq> epoch \<and> arg_checkpoint_interval a = 0 then Inl (ZeroDivisionError, s)
          else if (i \<noteq> epoch \<and> i mod arg_checkpoint_interval a = 0) \<or> i = arg_epochs a - 1
          then attempt s (save_checkpoint (arg_save_checkpoint a) i (st_loss s) (st_model s)
                        (st_optim s) (st_fs s)) (\<lambda>fs.
                 Inr (record_event (EvSaveCheckpoint (the (arg_save_checkpoint a)) i) (s\<lparr>st_fs := fs\<rparr>)))
          else Inr s))))"

text \<open>\<^verbatim>\<open>for i in range(epoch, args.epochs)\<close>, by recursion on the epochs left.\<close>

fun train_loop ::
  "'o world \<Rightarrow> config \<Rightarrow> args \<Rightarrow> int \<Rightarrow> int list \<Rightarrow> 'o state \<Rightarrow> 'o result" where
  "train_loop w cfg a epoch [] s = Inr s"
| "train_loop w cfg a epoch (i # is) s =
     ebind (train_iter w cfg a epoch i s) (train_loop w cfg a epoch is)"

text \<open>Lines 143 to 148: generation only.\<close>

definition main_generate :: "config \<Rightarrow> Tokenizer \<Rightarrow> args \<Rightarrow> 'o state \<Rightarrow> 'o result" where
  "main_generate cfg tokenizer a s =
     (let s = record_event (EvPrintGenerating (the (arg_generate a))) s;
          context = [[0]] in
      attempt s (GPT_generate cfg (st_model s) context 300 (st_rng s)) (\<lambda>(out, g).
      let s = record_event (EvGenerate 300 out) (s\<lparr>st_rng := g\<rparr>) in
      case out of
        [] \<Rightarrow> Inl (IndexError, s)
      | row # _ \<Rightarrow> Inr (record_event (EvPrint (decode tokenizer row)) s)))"

text \<open>What \<open>main\<close> does once the model and the optimizer exist: lines 136 to 167.\<close>

definition main_run ::
  "'o world \<Rightarrow> config \<Rightarrow> Tokenizer \<Rightarrow> args \<Rightarrow> 'o state \<Rightarrow> 'o result" where
  "main_run w cfg tokenizer a s =
     ebind
       (if truthy_str (arg_load_checkpoint a)
        then if \<not> isfile (st_fs s) (the (arg_load_checkpoint a)) then Inl (FileNotFoundError, s)
             else attempt s (load_checkpoint (the (arg_load_checkpoint a)) (st_model s) (st_optim s)
                           (st_fs s)) (\<lambda>((epoch, loss), model, optim).
                    Inr (epoch, record_event (EvLoadCheckpoint (the (arg_load_checkpoint a)) epoch)
                                  (s\<lparr>st_model := model, st_optim := optim, st_loss := loss\<rparr>)))
        else Inr (0, s)) (\<lambda>(epoch, s).
     if truthy_int (arg_generate a) then main_generate cfg tokenizer a s
     else train_loop w cfg a epoch [epoch..arg_epochs a - 1] s)"

text \<open>The outcome of a run: the exception or the normal return, with what was done
  and the files at that point.\<close>

datatype 'o outcome = Raised error "event list" "'o fs" | Returned "event list" "'o fs"

definition main :: "'o world \<Rightarrow> config \<Rightarrow> args \<Rightarrow> 'o fs \<Rightarrow> rng \<Rightarrow> 'o outcome" where
  "main w cfg a fs g =
     (case w_get_tokenizer w of
        Inl e \<Rightarrow> Raised e [] fs
      | Inr tokenizer \<Rightarrow>
     (case w_preprocess_data w of
        Inl e \<Rightarrow> Raised e [EvGetTokenizer] fs
      | Inr (tr, ev) \<Rightarrow>
     (case GPT_init cfg (get_vocab_size tokenizer) g of
        Inl e \<Rightarrow> Raised e [EvGetTokenizer, EvPreprocessData] fs
      | Inr (model, g1) \<Rightarrow>
     (case main_run w cfg tokenizer a
             \<lparr>st_DATA = (\<lambda>sp. case sp of TRAIN \<Rightarrow> tr | EVAL \<Rightarrow> ev),
              st_model = model, st_optim = w_AdamW w model, st_loss = LossInf, st_rng = g1,
              st_fs = fs,
              st_trace = [EvGetTokenizer, EvPreprocessData,
                          EvGPT (get_vocab_size tokenizer), EvAdamW]\<rparr> of
        Inl (e, s) \<Rightarrow> Raised e (st_trace s) (st_fs s)
      | Inr s \<Rightarrow> Returned (st_trace s) (st_fs s)))))"

text \<open>A run used in examples: a vocabulary of 65 tokens, streams of 300 tokens, and an
  optimizer step that leaves the parameters as they are.\<close>

definition example_world :: "unit world" where
  "example_world =
     \<lparr>w_get_tokenizer = Inr \<lparr>get_vocab_size = 65, decode = (\<lambda>_. [])\<rparr>,
      w_preprocess_data = Inr (replicate 300 0, replicate 300 0),
      w_AdamW = (\<lambda>_. ()),
      w_step = (\<lambda>model optim b g. (model, optim))\<rparr>"

definition example_args :: args where
  "example_args =
     \<lparr>arg_train = Some ''input.txt'', arg_eval = Some ''eval.txt'', arg_generate = None,
      arg_tokenizer = ''tokenizer/default.json'', arg_save_checkpoint = Some ''ckpt.pt'',
      arg_load_checkpoint = None, arg_checkpoint_interval = 1000, arg_epochs = 0\<rparr>"

definition no_files :: "unit fs" where
  "no_files = (\<lambda>_. None)"

text \<open>The epochs at which a run has saved a checkpoint, in order; the condition of
  line 166; the trace of an outcome; a file that holds a checkpoint of a given epoch.\<close>

definition checkpoint_epochs :: "event list \<Rightarrow> int list" where
  "checkpoint_epochs tr = concat (map (\<lambda>ev. case ev of EvSaveCheckpoint f i \<Rightarrow> [i] | _ \<Rightarrow> []) tr)"

definition checkpoint_due :: "args \<Rightarrow> int \<Rightarrow> int \<Rightarrow> bool" where
  "checkpoint_due a epoch i \<longleftrightarrow>
     (i \<noteq> epoch \<and> i mod arg_checkpoint_interval a = 0) \<or> i = arg_epochs a - 1"

definition outcome_trace :: "'o outcome \<Rightarrow> event list" where
  "outcome_trace r = (case r of Raised e tr fs \<Rightarrow> tr | Returned tr fs \<Rightarrow> tr)"

definition holds_epoch :: "'o fs \<Rightarrow> string \<Rightarrow> int \<Rightarrow> bool" where
  "holds_epoch fs f i \<longleftrightarrow>
     (case fs f of Some (CheckpointFile ck) \<Rightarrow> map_of ck ''epoch'' = Some (PyInt i) | _ \<Rightarrow> False)"

section \<open>Sampling on a store of objects\<close>

text \<open>
  \<open>generate\<close> once more, on a store: the model and the tensors are objects at
  addresses, a Python variable holds an address, and an operation that builds a
  tensor puts it at a fresh address. The slices \<^verbatim>\<open>idx[:, -SEQ_LEN:]\<close> and
  \<^verbatim>\<open>logits[:, -1, :]\<close> are views and take no address. Neither \<^verbatim>\<open>generate\<close> nor
  \<^verbatim>\<open>forward\<close> has an assignment to an attribute of the model, an indexed assignment or
  an in-place operation, so no step writes at an address in use.
\<close>

datatype obj = ModuleObj GPT | LongTensor "int list list" | FloatTensor tensor3 | FloatMatrix mat







text \<open>Token ids of a vocabulary of \<open>V\<close> entries.\<close>

definition valid_tokens :: "nat \<Rightarrow> int list list \<Rightarrow> bool" where
  "valid_tokens V idx \<longleftrightarrow> list_all (list_all (\<lambda>i. 0 \<le> i \<and> i < int V)) idx"

text \<open>What the constructor fixes for the heads of a block, and the dropout modules of
  a model in the order of its blocks.\<close>

definition heads_of_config :: "config \<Rightarrow> Block \<Rightarrow> bool" where
  "heads_of_config cfg b \<longleftrightarrow>
     length (heads (sa b)) = NUM_HEADS cfg \<and>
     list_all (\<lambda>h. head_size h = EMBED_SIZE cfg div NUM_HEADS cfg) (heads (sa b)) \<and>
     in_features (proj (sa b)) = NUM_HEADS cfg * (EMBED_SIZE cfg div NUM_HEADS cfg) \<and>
     out_features (proj (sa b)) = EMBED_SIZE cfg"

definition Block_dropouts :: "Block \<Rightarrow> Dropout list" where
  "Block_dropouts b = map head_dropout (heads (sa b)) @ [mha_dropout (sa b), net_3 (ffwd b)]"

definition GPT_dropouts :: "GPT \<Rightarrow> Dropout list" where
  "GPT_dropouts m = concat (map Block_dropouts (blocks m))"

definition Block_fresh :: "config \<Rightarrow> Block \<Rightarrow> bool" where
  "Block_fresh cfg b \<longleftrightarrow>
     heads_of_config cfg b \<and> (\<forall>d \<in> set (Block_dropouts b). d = nn_Dropout (DROPOUT cfg))"

section \<open>Properties of batch sampling\<close>

lemma uniform01_range: "0 \<le> uniform01 r \<and> uniform01 r < 1"
  unfolding uniform01_def by linarith

lemma randint_elem_bound:
  assumes "0 < high"
  shows "nat \<lfloor>uniform01 r * of_int high\<rfloor> < nat high"
proof -
  have u: "0 \<le> uniform01 r" "uniform01 r < 1" using uniform01_range by auto
  have "uniform01 r * of_int high < of_int high"
    using u assms by (simp add: mult_less_cancel_right1)
  then have "\<lfloor>uniform01 r * of_int high\<rfloor> < high" by (simp add: floor_less_iff)
  moreover have "0 \<le> \<lfloor>uniform01 r * of_int high\<rfloor>" using u assms by simp
  ultimately show ?thesis by linarith
qed

lemma randint_hits:
  assumes "s < nat high"
  shows "nat \<lfloor>uniform01 (real s / of_int high) * of_int high\<rfloor> = s"
proof -
  have h: "0 < high" using assms by linarith
  have "0 \<le> real s / of_int high" "real s / of_int high < 1"
    using assms h by (auto simp: divide_less_eq)
  then have "\<lfloor>real s / of_int high\<rfloor> = 0" by (simp add: floor_eq_iff)
  then have "uniform01 (real s / of_int high) = real s / of_int high"
    by (simp add: uniform01_def)
  then show ?thesis using h by simp
qed

lemma randint_ok:
  assumes "0 < high"
  shows "\<exists>ix. randint high n g = Inr (ix, rng_skip n g) \<and> length ix = n \<and>
           (\<forall>s \<in> set ix. s < nat high)"
  using assms randint_elem_bound [OF assms]
  by (auto simp: randint_def draws_def)

lemma randint_support:
  assumes "0 < high" "0 < n"
  shows "{s. \<exists>g ix g'. randint high n g = Inr (ix, g') \<and> s \<in> set ix} = {s. s < nat high}"
proof (intro equalityI subsetI)
  fix s assume "s \<in> {s. \<exists>g ix g'. randint high n g = Inr (ix, g') \<and> s \<in> set ix}"
  then show "s \<in> {s. s < nat high}"
    using randint_elem_bound [OF assms(1)] assms(1)
    by (auto simp: randint_def draws_def)
next
  fix s assume "s \<in> {s. s < nat high}"
  then have s: "s < nat high" by simp
  let ?g = "\<lambda>k::nat. real s / of_int high"
  have "s \<in> set (map (\<lambda>r. nat \<lfloor>uniform01 r * of_int high\<rfloor>) (draws n ?g))"
    using assms(2) randint_hits [OF s] by (auto simp: draws_def image_iff intro!: bexI [of _ 0])
  then show "s \<in> {s. \<exists>g ix g'. randint high n g = Inr (ix, g') \<and> s \<in> set ix}"
    using assms(1) by (auto simp: randint_def)
qed

lemma stack_ok:
  assumes "ts \<noteq> []" "\<forall>t \<in> set ts. length t = n"
  shows "stack ts = Inr ts"
  using assms by (cases ts) (auto simp: stack_def list_all_iff)

lemma py_slice_length:
  "b \<le> length xs \<Longrightarrow> length (py_slice xs a b) = b - a"
  by (simp add: py_slice_def)

lemma py_slice_nth:
  "b \<le> length xs \<Longrightarrow> t < b - a \<Longrightarrow> py_slice xs a b ! t = xs ! (a + t)"
  by (simp add: py_slice_def)

text \<open>
  Claim C3. For a token stream longer than \<open>SEQ_LEN\<close>, the offsets that
  \<open>get_batch\<close> can draw are exactly those at which a window of \<open>SEQ_LEN + 1\<close>
  tokens fits; it draws \<open>BATCH_SIZE\<close> of them, and for each drawn offset \<open>s\<close> the
  inputs are \<open>stream[s : s + SEQ_LEN]\<close> and the targets
  \<open>stream[s + 1 : s + 1 + SEQ_LEN]\<close>, both of full length, so that
  \<open>targets[b][t] = inputs[b][t + 1]\<close>. (That the draw is uniform is the contract of
  the library's \<^verbatim>\<open>randint\<close>; the model keeps its range.)
\<close>

theorem get_batch_windows:
  assumes "SEQ_LEN cfg < length (DATA split)" and "0 < BATCH_SIZE cfg"
  shows "{s. \<exists>g ix g'. randint (int (length (DATA split)) - int (SEQ_LEN cfg)) (BATCH_SIZE cfg) g
                = Inr (ix, g') \<and> s \<in> set ix}
           = {s. s + SEQ_LEN cfg + 1 \<le> length (DATA split)} \<and>
         (\<exists>ix x y g'.
            randint (int (length (DATA split)) - int (SEQ_LEN cfg)) (BATCH_SIZE cfg) g
              = Inr (ix, g') \<and>
            get_batch cfg DATA split g = Inr ((x, y), g') \<and>
            length ix = BATCH_SIZE cfg \<and> length x = BATCH_SIZE cfg \<and> length y = BATCH_SIZE cfg \<and>
            (\<forall>b < BATCH_SIZE cfg.
               ix ! b + SEQ_LEN cfg + 1 \<le> length (DATA split) \<and>
               x ! b = py_slice (DATA split) (ix ! b) (ix ! b + SEQ_LEN cfg) \<and>
               y ! b = py_slice (DATA split) (ix ! b + 1) (ix ! b + 1 + SEQ_LEN cfg) \<and>
               length (x ! b) = SEQ_LEN cfg \<and> length (y ! b) = SEQ_LEN cfg \<and>
               (\<forall>t < SEQ_LEN cfg. x ! b ! t = DATA split ! (ix ! b + t) \<and>
                                   y ! b ! t = DATA split ! (ix ! b + 1 + t)) \<and>
               (\<forall>t. t + 1 < SEQ_LEN cfg \<longrightarrow> y ! b ! t = x ! b ! (t + 1))))"
proof
  let ?L = "length (DATA split)" and ?S = "SEQ_LEN cfg" and ?B = "BATCH_SIZE cfg"
  let ?high = "int ?L - int ?S"
  have high: "0 < ?high" using assms(1) by simp
  have nat_high: "nat ?high = ?L - ?S" by simp
  show "{s. \<exists>g ix g'. randint ?high ?B g = Inr (ix, g') \<and> s \<in> set ix} = {s. s + ?S + 1 \<le> ?L}"
    unfolding randint_support [OF high assms(2)] nat_high using assms(1) by auto
  obtain ix where ix: "randint ?high ?B g = Inr (ix, rng_skip ?B g)" "length ix = ?B"
      "\<forall>s \<in> set ix. s < nat ?high"
    using randint_ok [OF high] by blast
  have fit: "s + ?S + 1 \<le> ?L" if "s \<in> set ix" for s
    using ix(3) that nat_high by fastforce
  let ?x = "map (\<lambda>i. py_slice (DATA split) i (i + ?S)) ix"
  let ?y = "map (\<lambda>i. py_slice (DATA split) (i + 1) (i + 1 + ?S)) ix"
  have ne: "ix \<noteq> []" using ix(2) assms(2) by auto
  have lx: "\<forall>t \<in> set ?x. length t = ?S"
    using fit by (fastforce simp: py_slice_length)
  have ly: "\<forall>t \<in> set ?y. length t = ?S"
    using fit by (fastforce simp: py_slice_length)
  have sx: "stack ?x = Inr ?x" using stack_ok [OF _ lx] ne by simp
  have sy: "stack ?y = Inr ?y" using stack_ok [OF _ ly] ne by simp
  have gb: "get_batch cfg DATA split g = Inr ((?x, ?y), rng_skip ?B g)"
    using sx sy by (simp add: get_batch_def Let_def ebind_def ix(1))
  have rows: "ix ! b + ?S + 1 \<le> ?L \<and>
       ?x ! b = py_slice (DATA split) (ix ! b) (ix ! b + ?S) \<and>
       ?y ! b = py_slice (DATA split) (ix ! b + 1) (ix ! b + 1 + ?S) \<and>
       length (?x ! b) = ?S \<and> length (?y ! b) = ?S \<and>
       (\<forall>t < ?S. ?x ! b ! t = DATA split ! (ix ! b + t) \<and>
                 ?y ! b ! t = DATA split ! (ix ! b + 1 + t)) \<and>
       (\<forall>t. t + 1 < ?S \<longrightarrow> ?y ! b ! t = ?x ! b ! (t + 1))" if b: "b < ?B" for b
  proof -
    have mem: "ix ! b \<in> set ix" using b ix(2) by simp
    have f: "ix ! b + ?S + 1 \<le> ?L" using fit [OF mem] .
    have nx: "?x ! b = py_slice (DATA split) (ix ! b) (ix ! b + ?S)"
      and ny: "?y ! b = py_slice (DATA split) (ix ! b + 1) (ix ! b + 1 + ?S)"
      using b ix(2) by simp_all
    have ex: "\<forall>t < ?S. ?x ! b ! t = DATA split ! (ix ! b + t)"
      unfolding nx using f by (simp add: py_slice_nth)
    have ey: "\<forall>t < ?S. ?y ! b ! t = DATA split ! (ix ! b + 1 + t)"
      unfolding ny using f by (simp add: py_slice_nth)
    have sh: "\<forall>t. t + 1 < ?S \<longrightarrow> ?y ! b ! t = ?x ! b ! (t + 1)"
      using ex ey by (auto simp: add.assoc add.left_commute)
    have len: "length (?x ! b) = ?S" "length (?y ! b) = ?S"
      unfolding nx ny using f by (simp_all add: py_slice_length)
    show ?thesis using f nx ny ex ey sh len by blast
  qed
  show "\<exists>ix x y g'.
            randint ?high ?B g = Inr (ix, g') \<and>
            get_batch cfg DATA split g = Inr ((x, y), g') \<and>
            length ix = ?B \<and> length x = ?B \<and> length y = ?B \<and>
            (\<forall>b < ?B.
               ix ! b + ?S + 1 \<le> ?L \<and>
               x ! b = py_slice (DATA split) (ix ! b) (ix ! b + ?S) \<and>
               y ! b = py_slice (DATA split) (ix ! b + 1) (ix ! b + 1 + ?S) \<and>
               length (x ! b) = ?S \<and> length (y ! b) = ?S \<and>
               (\<forall>t < ?S. x ! b ! t = DATA split ! (ix ! b + t) \<and>
                         y ! b ! t = DATA split ! (ix ! b + 1 + t)) \<and>
               (\<forall>t. t + 1 < ?S \<longrightarrow> y ! b ! t = x ! b ! (t + 1)))"
    apply (rule exI [of _ ix], rule exI [of _ ?x], rule exI [of _ ?y],
           rule exI [of _ "rng_skip ?B g"])
    using ix(1,2) gb rows by simp
qed

theorem get_batch_windows_witness:
  "\<exists>x y g'. get_batch (gpt_config 2) (\<lambda>_. map int [0..<300]) TRAIN (\<lambda>_. 0) = Inr ((x, y), g') \<and>
     length x = 2 \<and> length y = 2"
proof -
  have h1: "SEQ_LEN (gpt_config 2) < length ((\<lambda>_. map int [0..<300]) TRAIN)"
    by (simp add: gpt_config_def)
  have h2: "0 < BATCH_SIZE (gpt_config 2)" by (simp add: gpt_config_def)
  have b: "BATCH_SIZE (gpt_config 2) = 2" by (simp add: gpt_config_def)
  show ?thesis
    using get_batch_windows [OF h1 h2, of "\<lambda>_. 0"] unfolding b by blast
qed

section \<open>Properties of the attention head\<close>

lemma shape3_nth:
  "shape3 B T C x \<Longrightarrow> b < B \<Longrightarrow> length (x ! b) = T \<and> (\<forall>i < T. length (x ! b ! i) = C)"
  by (auto simp: shape3_def list_all_length)

lemma shape3_I:
  "length x = B \<Longrightarrow> (\<And>b. b < B \<Longrightarrow> length (x ! b) = T) \<Longrightarrow>
   (\<And>b i. b < B \<Longrightarrow> i < T \<Longrightarrow> length (x ! b ! i) = C) \<Longrightarrow> shape3 B T C x"
  by (auto simp: shape3_def list_all_length)

lemma Linear_forward_ok:
  assumes "shape3 B T C x" "in_features l = C"
  shows "Linear_forward l x = Inr (map (map (Linear_row l)) x)"
  using assms by (auto simp: Linear_forward_def shape3_def list_all_iff)

lemma Linear_row_length: "length (Linear_row l r) = out_features l"
  by (simp add: Linear_row_def)

lemma Linear_forward_shape:
  assumes "shape3 B T C x"
  shows "shape3 B T (out_features l) (map (map (Linear_row l)) x)"
  using assms by (auto simp: shape3_def list_all_iff Linear_row_length)

lemma Head_scores_ok:
  assumes "shape3 B T C x" "in_features (key h) = C" "in_features (query h) = C"
  shows "\<exists>wei. Head_scores h x = Inr wei \<and> shape3 B T T wei"
proof -
  let ?k = "map (map (Linear_row (key h))) x" and ?q = "map (map (Linear_row (query h))) x"
  let ?f = "\<lambda>qm km. map (\<lambda>qi. map (\<lambda>kj. dot qi kj / sqrt (real (out_features (key h)))) km) qm"
  have "Head_scores h x = Inr (map2 ?f ?q ?k)"
    by (simp add: Head_scores_def ebind_def Linear_forward_ok [OF assms(1)] assms(2,3))
  moreover have "shape3 B T T (map2 ?f ?q ?k)"
    using shape3_nth [OF assms(1)] assms(1)
    by (intro shape3_I) (auto simp: shape3_def)
  ultimately show ?thesis by blast
qed

lemma tril_mask_eq:
  assumes "tril h = torch_tril (torch_ones S S)" "T \<le> S"
  shows "tril_mask h T = map (\<lambda>i. map (\<lambda>j. i < j) [0..<T]) [0..<T]"
proof -
  have "torch_tril (torch_ones S S) = map (\<lambda>i. map (\<lambda>j. if j \<le> i then 1 else 0) [0..<S]) [0..<S]"
    by (auto simp: torch_tril_def torch_ones_def)
  then show ?thesis using assms
    by (auto simp: tril_mask_def take_map min_def)
qed


lemma masked_fill_causal:
  assumes "shape3 B T T w"
  shows "masked_fill w (map (\<lambda>i. map (\<lambda>j. i < j) [0..<T]) [0..<T]) =
     Inr (map (\<lambda>m. map (\<lambda>i. map (\<lambda>j. if i < j then MinusInf else Score (m ! i ! j)) [0..<T]) [0..<T]) w)"
proof -
  let ?mask = "map (\<lambda>i. map (\<lambda>j. i < j) [0..<T]) [0..<T]"
  have rows: "length m = T \<and> (\<forall>i < T. length (m ! i) = T)" if "m \<in> set w" for m
    using assms that by (auto simp: shape3_def list_all_iff)
  have ok: "list_all (\<lambda>m. list_all2 (\<lambda>r k. length r = length k) m ?mask) w"
    using rows by (auto simp: list_all_iff list_all2_conv_all_nth)
  have row: "map2 (map2 (\<lambda>a b. if b then MinusInf else Score a)) m ?mask
      = map (\<lambda>i. map (\<lambda>j. if i < j then MinusInf else Score (m ! i ! j)) [0..<T]) [0..<T]"
    if "m \<in> set w" for m
  proof -
    have m: "length m = T" "\<forall>i < T. length (m ! i) = T"
      using rows [OF that] by auto
    show ?thesis
      by (rule nth_equalityI) (auto simp: m intro!: nth_equalityI)
  qed
  show ?thesis using ok row by (simp add: masked_fill_def)
qed

lemma softmax_score_masked: "j < length r \<Longrightarrow> r ! j = MinusInf \<Longrightarrow> softmax_score r ! j = 0"
  by (simp add: softmax_score_def)

lemma exp_score_nonneg: "0 \<le> exp_score a"
  by (cases a) simp_all

lemma sum_list_exp_score_pos:
  assumes "Score a \<in> set r"
  shows "0 < sum_list (map exp_score r)"
proof -
  have "exp_score (Score a) \<in> set (map exp_score r)" using assms by force
  then have "exp_score (Score a) \<le> sum_list (map exp_score r)"
    using exp_score_nonneg by (intro member_le_sum_list) auto
  then show ?thesis using exp_gt_zero [of a] by (simp del: exp_gt_zero)
qed

lemma softmax_score_sum:
  assumes "Score a \<in> set r"
  shows "sum_list (softmax_score r) = 1"
proof -
  let ?Z = "sum_list (map exp_score r)"
  have Z: "0 < ?Z" using sum_list_exp_score_pos [OF assms] .
  have "sum_list (softmax_score r) = (\<Sum>a\<leftarrow>r. exp_score a * (1 / ?Z))"
    by (simp add: softmax_score_def comp_def)
  also have "\<dots> = ?Z * (1 / ?Z)" by (rule sum_list_mult_const)
  finally show ?thesis using Z by simp
qed

lemma Head_attention_weights:
  assumes "shape3 B T (EMBED_SIZE cfg) x" and "T \<le> SEQ_LEN cfg"
    and "in_features (key h) = EMBED_SIZE cfg" and "in_features (query h) = EMBED_SIZE cfg"
    and "tril h = torch_tril (torch_ones (SEQ_LEN cfg) (SEQ_LEN cfg))"
  shows "\<exists>wei. Head_attention h x = Inr wei \<and> shape3 B T T wei \<and>
           (\<forall>b < B. \<forall>i < T. (\<forall>j < T. i < j \<longrightarrow> wei ! b ! i ! j = 0) \<and> sum_list (wei ! b ! i) = 1)"
proof -
  obtain w where w: "Head_scores h x = Inr w" "shape3 B T T w"
    using Head_scores_ok [OF assms(1,3,4)] by blast
  have T: "(case x of [] \<Rightarrow> 0 | m # _ \<Rightarrow> length m) = T \<or> B = 0"
    using assms(1) by (cases x) (auto simp: shape3_def)
  let ?sc = "map (\<lambda>m. map (\<lambda>i. map (\<lambda>j. if i < j then MinusInf else Score (m ! i ! j)) [0..<T]) [0..<T]) w"
  let ?wei = "map (map softmax_score) ?sc"
  have mf: "masked_fill w (tril_mask h (case x of [] \<Rightarrow> 0 | m # _ \<Rightarrow> length m)) = Inr ?sc"
  proof (cases "B = 0")
    case True
    then have "w = []" using w(2) by (simp add: shape3_def)
    then show ?thesis by (simp add: masked_fill_def)
  next
    case False
    then have "(case x of [] \<Rightarrow> 0 | m # _ \<Rightarrow> length m) = T" using T by simp
    then show ?thesis
      using masked_fill_causal [OF w(2)] tril_mask_eq [OF assms(5,2)] by simp
  qed
  have att: "Head_attention h x = Inr ?wei"
    by (simp add: Head_attention_def Let_def ebind_def w(1) mf)
  have len: "length w = B" using w(2) by (simp add: shape3_def)
  have sh: "shape3 B T T ?wei"
    by (intro shape3_I) (simp_all add: len softmax_score_def)
  have ent: "(\<forall>j < T. i < j \<longrightarrow> ?wei ! b ! i ! j = 0) \<and> sum_list (?wei ! b ! i) = 1"
    if "b < B" "i < T" for b i
  proof -
    let ?row = "map (\<lambda>j. if i < j then MinusInf else Score (w ! b ! i ! j)) [0..<T]"
    have r: "?wei ! b ! i = softmax_score ?row" using that len by simp
    have "?row ! i = Score (w ! b ! i ! i)" using that by simp
    then have "Score (w ! b ! i ! i) \<in> set ?row"
      using that by (auto simp: image_iff)
    then have "sum_list (softmax_score ?row) = 1" by (rule softmax_score_sum)
    moreover have "\<forall>j < T. i < j \<longrightarrow> softmax_score ?row ! j = 0"
      by (simp add: softmax_score_masked)
    ultimately show ?thesis unfolding r by simp
  qed
  from ent have "\<forall>b < B. \<forall>i < T. (\<forall>j < T. i < j \<longrightarrow> ?wei ! b ! i ! j = 0) \<and> sum_list (?wei ! b ! i) = 1"
    by blast
  with att sh show ?thesis by (intro exI [of _ ?wei] conjI)
qed




section \<open>The forward pass is defined on well-shaped input\<close>

lemma shape3_D:
  "shape3 B T C x \<Longrightarrow> length x = B \<and> (\<forall>m \<in> set x. length m = T \<and> (\<forall>r \<in> set m. length r = C))"
  by (auto simp: shape3_def list_all_iff)

lemma shape3_set_I:
  "length x = B \<Longrightarrow> (\<And>m. m \<in> set x \<Longrightarrow> length m = T \<and> (\<forall>r \<in> set m. length r = C)) \<Longrightarrow>
   shape3 B T C x"
  by (auto simp: shape3_def list_all_iff)

lemma LayerNorm_forward_ok:
  assumes "shape3 B T C x" "normalized_shape nl = C"
  shows "\<exists>y. LayerNorm_forward nl x = Inr y \<and> shape3 B T C y"
  using assms by (auto simp: LayerNorm_forward_def shape3_def list_all_iff LayerNorm_row_def)

lemma Linear_forward_ex:
  assumes "shape3 B T C x" "in_features l = C"
  shows "\<exists>y. Linear_forward l x = Inr y \<and> shape3 B T (out_features l) y"
  using Linear_forward_ok [OF assms] Linear_forward_shape [OF assms(1)] by blast

lemma map_rng_Cons_fst:
  "fst (map_rng f (x # xs) g) = fst (f x g) # fst (map_rng f xs (snd (f x g)))"
  by (simp split: prod.splits)

lemma map_rng_length: "length (fst (map_rng f xs g)) = length xs"
proof (induction xs arbitrary: g)
  case Nil
  show ?case by simp
next
  case (Cons a xs)
  show ?case unfolding map_rng_Cons_fst by (simp add: Cons.IH)
qed

lemma map_rng_set:
  "y \<in> set (fst (map_rng f xs g)) \<Longrightarrow> \<exists>x \<in> set xs. \<exists>g'. y = fst (f x g')"
proof (induction xs arbitrary: g)
  case Nil
  then show ?case by simp
next
  case (Cons a xs)
  obtain y1 g1 where f: "f a g = (y1, g1)" by (cases "f a g")
  obtain ys g2 where r: "map_rng f xs g1 = (ys, g2)" by (cases "map_rng f xs g1")
  from Cons.prems f r have "y = y1 \<or> y \<in> set ys" by simp
  then show ?case
  proof
    assume "y = y1"
    then have "y = fst (f a g)" using f by simp
    then show ?thesis by auto
  next
    assume "y \<in> set ys"
    then have "y \<in> set (fst (map_rng f xs g1))" using r by simp
    from Cons.IH [OF this] show ?thesis by auto
  qed
qed

lemma dropout_vec_length: "length (fst (dropout_vec q v g)) = length v"
  by (simp add: dropout_vec_def draws_def)

lemma Dropout_forward_shape:
  assumes "shape3 B T C x"
  shows "shape3 B T C (fst (Dropout_forward d x g))"
proof (cases "training d")
  case False
  then show ?thesis using assms by (simp add: Dropout_forward_def)
next
  case True
  let ?y = "fst (map_rng (map_rng (dropout_vec (drop_p d))) x g)"
  have "shape3 B T C ?y"
  proof (rule shape3_set_I)
    show "length ?y = B" using assms by (simp add: map_rng_length shape3_def)
  next
    fix m assume "m \<in> set ?y"
    then obtain m0 g' where m0: "m0 \<in> set x" "m = fst (map_rng (dropout_vec (drop_p d)) m0 g')"
      using map_rng_set by fast
    have s: "length m0 = T" "\<forall>r \<in> set m0. length r = C"
      using shape3_D [OF assms] m0(1) by auto
    have "length r = C" if "r \<in> set m" for r
    proof -
      from that have "r \<in> set (fst (map_rng (dropout_vec (drop_p d)) m0 g'))"
        unfolding m0(2) .
      then obtain r0 g'' where "r0 \<in> set m0" "r = fst (dropout_vec (drop_p d) r0 g'')"
        using map_rng_set by fast
      then show ?thesis using s(2) by (simp add: dropout_vec_length)
    qed
    then show "length m = T \<and> (\<forall>r \<in> set m. length r = C)"
      using s(1) m0(2) by (simp add: map_rng_length)
  qed
  then show ?thesis using True by (simp add: Dropout_forward_def)
qed

lemma Dropout_forward_ex:
  assumes "shape3 B T C x"
  shows "\<exists>y g'. Dropout_forward d x g = (y, g') \<and> shape3 B T C y"
  using Dropout_forward_shape [OF assms, of d g] by (cases "Dropout_forward d x g") auto

lemma add3_ok:
  assumes "shape3 B T C x" "shape3 B T C y"
  shows "\<exists>z. add3 x y = Inr z \<and> shape3 B T C z"
proof -
  have "list_all2 (list_all2 (\<lambda>r s. length r = length s)) x y"
    using assms by (auto simp: shape3_def list_all_length list_all2_conv_all_nth)
  moreover have "shape3 B T C (map2 (map2 (map2 (+))) x y)"
    using assms by (auto simp: shape3_def list_all_length)
  ultimately show ?thesis by (simp add: add3_def)
qed

lemma Head_forward_ok:
  assumes wf: "wf_Head cfg hs h" and sh: "shape3 B T (EMBED_SIZE cfg) x" and T: "T \<le> SEQ_LEN cfg"
  shows "\<exists>y g'. Head_forward h x g = Inr (y, g') \<and> shape3 B T hs y"
proof -
  have k: "in_features (key h) = EMBED_SIZE cfg" and q: "in_features (query h) = EMBED_SIZE cfg"
    and v: "in_features (value h) = EMBED_SIZE cfg" "out_features (value h) = hs"
    and tr: "tril h = torch_tril (torch_ones (SEQ_LEN cfg) (SEQ_LEN cfg))"
    using wf by (simp_all add: wf_Head_def wf_Linear_def)
  obtain wei where wei: "Head_attention h x = Inr wei" "shape3 B T T wei"
    using Head_attention_weights [OF sh T k q tr] by blast
  obtain wei' g' where d: "Dropout_forward (head_dropout h) wei g = (wei', g')" "shape3 B T T wei'"
    using Dropout_forward_ex [OF wei(2)] by blast
  obtain vv where vv: "Linear_forward (value h) x = Inr vv" "shape3 B T (out_features (value h)) vv"
    using Linear_forward_ex [OF sh v(1)] by blast
  let ?out = "map2 (\<lambda>wm vm. matmul wm vm (out_features (value h))) wei' vv"
  have "Head_forward h x g = Inr (?out, g')"
    by (simp add: Head_forward_def Head_weights_def ebind_def wei(1) d(1) vv(1))
  moreover have "shape3 B T hs ?out"
    using d(2) vv(2) v(2) by (auto simp: shape3_def list_all_length matmul_def)
  ultimately show ?thesis by blast
qed

lemma emap_rng_ok:
  assumes "\<And>x g. x \<in> set xs \<Longrightarrow> \<exists>y g'. f x g = Inr (y, g') \<and> P y"
  shows "\<exists>ys g'. emap_rng f xs g = Inr (ys, g') \<and> length ys = length xs \<and> (\<forall>y \<in> set ys. P y)"
  using assms
proof (induction xs arbitrary: g)
  case Nil
  then show ?case by simp
next
  case (Cons a xs)
  obtain y g1 where y: "f a g = Inr (y, g1)" "P y" using Cons.prems [of a g] by auto
  obtain ys g2 where ys: "emap_rng f xs g1 = Inr (ys, g2)" "length ys = length xs" "\<forall>y \<in> set ys. P y"
    using Cons.IH [of g1] Cons.prems by auto
  have "emap_rng f (a # xs) g = Inr (y # ys, g2)" by (simp add: ebind_def y(1) ys(1))
  then show ?case using y(2) ys(2,3) by simp
qed

lemma length_concat_const:
  "(\<And>x. x \<in> set xs \<Longrightarrow> length (f x) = C) \<Longrightarrow> length (concat (map f xs)) = length xs * C"
  by (induction xs) auto

lemma cat_last_ok:
  assumes ne: "ts \<noteq> []" and sh: "\<forall>t \<in> set ts. shape3 B T C t"
  shows "\<exists>y. cat_last ts = Inr y \<and> shape3 B T (length ts * C) y"
proof -
  obtain t ts' where ts: "ts = t # ts'" using ne by (cases ts) auto
  have t: "shape3 B T C t" using sh ts by simp
  have el: "length u = B \<and> (\<forall>b < B. length (u ! b) = T \<and> (\<forall>i < T. length (u ! b ! i) = C))"
    if "u \<in> set ts" for u
    using sh that by (auto simp: shape3_def list_all_length)
  have chk: "list_all (\<lambda>u. list_all2 (\<lambda>um tm. length um = length tm) u t) ts"
    using el el [of t] ts by (auto simp: list_all_iff list_all2_conv_all_nth)
  let ?y = "map (\<lambda>b. map (\<lambda>i. concat (map (\<lambda>u. u ! b ! i) ts)) [0..<length (t ! b)]) [0..<length t]"
  have "cat_last ts = Inr ?y" using chk ts by (simp add: cat_last_def)
  moreover have "shape3 B T (length ts * C) ?y"
  proof (rule shape3_I)
    show "length ?y = B" using el [of t] ts by simp
  next
    fix b assume "b < B"
    then show "length (?y ! b) = T" using el [of t] ts by simp
  next
    fix b i assume bi: "b < B" "i < T"
    then have "?y ! b ! i = concat (map (\<lambda>u. u ! b ! i) ts)" using el [of t] ts by simp
    moreover have "length (concat (map (\<lambda>u. u ! b ! i) ts)) = length ts * C"
      using el bi by (intro length_concat_const) auto
    ultimately show "length (?y ! b ! i) = length ts * C" by simp
  qed
  ultimately show ?thesis by blast
qed

lemma MultiHeadAttention_forward_ok:
  assumes wf: "wf_MultiHeadAttention cfg m" and sh: "shape3 B T (EMBED_SIZE cfg) x"
    and T: "T \<le> SEQ_LEN cfg"
  shows "\<exists>y g'. MultiHeadAttention_forward m x g = Inr (y, g') \<and> shape3 B T (EMBED_SIZE cfg) y"
proof -
  let ?hs = "head_size (hd (heads m))"
  have ne: "heads m \<noteq> []" and hd: "\<forall>h \<in> set (heads m). wf_Head cfg ?hs h"
    and pr: "in_features (proj m) = length (heads m) * ?hs" "out_features (proj m) = EMBED_SIZE cfg"
    using wf by (simp_all add: wf_MultiHeadAttention_def wf_Linear_def list_all_iff)
  obtain outs g1 where outs: "emap_rng (\<lambda>h. Head_forward h x) (heads m) g = Inr (outs, g1)"
      "length outs = length (heads m)" "\<forall>y \<in> set outs. shape3 B T ?hs y"
    using emap_rng_ok [of "heads m" "\<lambda>h. Head_forward h x" "shape3 B T ?hs" g]
      Head_forward_ok [OF _ sh T] hd by blast
  have "outs \<noteq> []" using outs(2) ne by auto
  then obtain c where c: "cat_last outs = Inr c" "shape3 B T (length outs * ?hs) c"
    using cat_last_ok [OF _ outs(3)] by blast
  obtain p where p: "Linear_forward (proj m) c = Inr p" "shape3 B T (out_features (proj m)) p"
    using Linear_forward_ex [OF c(2)] pr(1) outs(2) by auto
  obtain y g' where y: "Dropout_forward (mha_dropout m) p g1 = (y, g')"
      "shape3 B T (out_features (proj m)) y"
    using Dropout_forward_ex [OF p(2)] by blast
  have "MultiHeadAttention_forward m x g = Inr (y, g')"
    by (simp add: MultiHeadAttention_forward_def ebind_def outs(1) c(1) p(1) y(1))
  then show ?thesis using y(2) pr(2) by auto
qed

lemma relu_shape: "shape3 B T C x \<Longrightarrow> shape3 B T C (relu x)"
  by (auto simp: shape3_def relu_def list_all_iff)

lemma FeedForward_forward_ok:
  assumes wf: "wf_FeedForward cfg f" and sh: "shape3 B T (EMBED_SIZE cfg) x"
  shows "\<exists>y g'. FeedForward_forward f x g = Inr (y, g') \<and> shape3 B T (EMBED_SIZE cfg) y"
proof -
  have f0: "in_features (net_0 f) = EMBED_SIZE cfg" "out_features (net_0 f) = 4 * EMBED_SIZE cfg"
    and f2: "in_features (net_2 f) = 4 * EMBED_SIZE cfg" "out_features (net_2 f) = EMBED_SIZE cfg"
    using wf by (simp_all add: wf_FeedForward_def wf_Linear_def)
  obtain h where h: "Linear_forward (net_0 f) x = Inr h" "shape3 B T (out_features (net_0 f)) h"
    using Linear_forward_ex [OF sh f0(1)] by blast
  have "shape3 B T (4 * EMBED_SIZE cfg) (relu h)" using relu_shape [OF h(2)] f0(2) by simp
  then obtain h2 where h2: "Linear_forward (net_2 f) (relu h) = Inr h2"
      "shape3 B T (out_features (net_2 f)) h2"
    using Linear_forward_ex f2(1) by blast
  obtain y g' where y: "Dropout_forward (net_3 f) h2 g = (y, g')"
      "shape3 B T (out_features (net_2 f)) y"
    using Dropout_forward_ex [OF h2(2)] by blast
  have "FeedForward_forward f x g = Inr (y, g')"
    by (simp add: FeedForward_forward_def ebind_def h(1) h2(1) y(1))
  then show ?thesis using y(2) f2(2) by auto
qed

lemma Block_forward_ok:
  assumes wf: "wf_Block cfg b" and sh: "shape3 B T (EMBED_SIZE cfg) x" and T: "T \<le> SEQ_LEN cfg"
  shows "\<exists>y g'. Block_forward b x g = Inr (y, g') \<and> shape3 B T (EMBED_SIZE cfg) y"
proof -
  have w: "wf_MultiHeadAttention cfg (sa b)" "wf_FeedForward cfg (ffwd b)"
      "normalized_shape (ln1 b) = EMBED_SIZE cfg" "normalized_shape (ln2 b) = EMBED_SIZE cfg"
    using wf by (simp_all add: wf_Block_def wf_LayerNorm_def)
  obtain h where h: "LayerNorm_forward (ln1 b) x = Inr h" "shape3 B T (EMBED_SIZE cfg) h"
    using LayerNorm_forward_ok [OF sh w(3)] by blast
  obtain a g1 where a: "MultiHeadAttention_forward (sa b) h g = Inr (a, g1)"
      "shape3 B T (EMBED_SIZE cfg) a"
    using MultiHeadAttention_forward_ok [OF w(1) h(2) T] by blast
  obtain x1 where x1: "add3 x a = Inr x1" "shape3 B T (EMBED_SIZE cfg) x1"
    using add3_ok [OF sh a(2)] by blast
  obtain h2 where h2: "LayerNorm_forward (ln2 b) x1 = Inr h2" "shape3 B T (EMBED_SIZE cfg) h2"
    using LayerNorm_forward_ok [OF x1(2) w(4)] by blast
  obtain f g2 where f: "FeedForward_forward (ffwd b) h2 g1 = Inr (f, g2)"
      "shape3 B T (EMBED_SIZE cfg) f"
    using FeedForward_forward_ok [OF w(2) h2(2)] by blast
  obtain x2 where x2: "add3 x1 f = Inr x2" "shape3 B T (EMBED_SIZE cfg) x2"
    using add3_ok [OF x1(2) f(2)] by blast
  have "Block_forward b x g = Inr (x2, g2)"
    by (simp add: Block_forward_def ebind_def h(1) a(1) x1(1) h2(1) f(1) x2(1))
  then show ?thesis using x2(2) by auto
qed

lemma Sequential_forward_ok:
  assumes "\<forall>b \<in> set bs. wf_Block cfg b" and "shape3 B T (EMBED_SIZE cfg) x" and "T \<le> SEQ_LEN cfg"
  shows "\<exists>y g'. Sequential_forward bs x g = Inr (y, g') \<and> shape3 B T (EMBED_SIZE cfg) y"
  using assms
proof (induction bs arbitrary: x g)
  case Nil
  then show ?case by simp
next
  case (Cons b bs)
  have wb: "wf_Block cfg b" and wbs: "\<forall>b \<in> set bs. wf_Block cfg b"
    using Cons.prems(1) by simp_all
  obtain x1 g1 where x1: "Block_forward b x g = Inr (x1, g1)" "shape3 B T (EMBED_SIZE cfg) x1"
    using Block_forward_ok [OF wb Cons.prems(2,3)] by blast
  obtain y g' where y: "Sequential_forward bs x1 g1 = Inr (y, g')" "shape3 B T (EMBED_SIZE cfg) y"
    using Cons.IH [OF wbs x1(2) Cons.prems(3)] by blast
  have "Sequential_forward (b # bs) x g = Inr (y, g')" by (simp add: ebind_def x1(1) y(1))
  then show ?case using y(2) by auto
qed

lemma Embedding_forward_ok:
  assumes wf: "wf_Embedding V E e" and sh: "shape2 B T idx" and v: "valid_tokens V idx"
  shows "\<exists>y. Embedding_forward e idx = Inr y \<and> shape3 B T E y"
proof -
  have n: "num_embeddings e = V" and w: "\<forall>i < V. length (emb_weight e ! i) = E"
    using wf by (auto simp: wf_Embedding_def shape2_def list_all_length)
  have "Embedding_forward e idx = Inr (map (map (\<lambda>i. emb_weight e ! nat i)) idx)"
    using v n by (simp add: Embedding_forward_def valid_tokens_def)
  moreover have "length (emb_weight e ! nat i) = E" if "0 \<le> i" "i < int V" for i
    using w that by (simp add: nat_less_iff)
  then have "shape3 B T E (map (map (\<lambda>i. emb_weight e ! nat i)) idx)"
    using sh v by (auto simp: shape3_def shape2_def valid_tokens_def list_all_iff)
  ultimately show ?thesis by blast
qed

lemma Embedding_forward1_ok:
  assumes wf: "wf_Embedding S E e" and T: "T \<le> S"
  shows "\<exists>y. Embedding_forward1 e (map int [0..<T]) = Inr y \<and> shape2 T E y"
proof -
  have n: "num_embeddings e = S" and w: "\<forall>i < S. length (emb_weight e ! i) = E"
    using wf by (auto simp: wf_Embedding_def shape2_def list_all_length)
  have "Embedding_forward1 e (map int [0..<T]) = Inr (map (\<lambda>i. emb_weight e ! nat i) (map int [0..<T]))"
    using n T by (auto simp: Embedding_forward1_def list_all_iff)
  moreover have "shape2 T E (map (\<lambda>i. emb_weight e ! nat i) (map int [0..<T]))"
    using w T by (auto simp: shape2_def list_all_iff)
  ultimately show ?thesis by blast
qed

lemma add_broadcast_ok:
  assumes "shape3 B T C x" "shape2 T C y"
  shows "\<exists>z. add_broadcast x y = Inr z \<and> shape3 B T C z"
proof -
  have "list_all (\<lambda>m. list_all2 (\<lambda>r s. length r = length s) m y) x"
    using assms by (auto simp: shape3_def shape2_def list_all_length list_all2_conv_all_nth)
  moreover have "shape3 B T C (map (\<lambda>m. map2 (map2 (+)) m y) x)"
    using assms by (auto simp: shape3_def shape2_def list_all_length)
  ultimately show ?thesis by (simp add: add_broadcast_def)
qed

lemma add_broadcast_Nil: "add_broadcast [] y = Inr []"
  by (simp add: add_broadcast_def)

lemma shape3_Nil: "shape3 0 T C []"
  by (simp add: shape3_def)

lemma length_concat_shape3: "shape3 B T C x \<Longrightarrow> length (concat x) = B * T"
proof -
  assume "shape3 B T C x"
  then have "length x = B" "\<And>m. m \<in> set x \<Longrightarrow> length (id m) = T"
    by (auto simp: shape3_def list_all_iff)
  then show ?thesis using length_concat_const [of x id T] by simp
qed

lemma length_concat_shape2: "shape2 B T x \<Longrightarrow> length (concat x) = B * T"
proof -
  assume "shape2 B T x"
  then have "length x = B" "\<And>m. m \<in> set x \<Longrightarrow> length (id m) = T"
    by (auto simp: shape2_def list_all_iff)
  then show ?thesis using length_concat_const [of x id T] by simp
qed

lemma cross_entropy_ok:
  assumes "\<forall>r \<in> set lg. length r = V" "\<forall>t \<in> set tg. 0 \<le> t \<and> t < int V"
  shows "\<exists>loss. cross_entropy lg tg = Inr loss"
proof -
  have "0 \<le> t \<and> t < int (length r)" if "(r, t) \<in> set (zip lg tg)" for r t
    using assms set_zip_leftD [OF that] set_zip_rightD [OF that] by simp
  then have "list_all (\<lambda>(r, t). 0 \<le> t \<and> t < int (length r)) (filter (\<lambda>(r, t). t \<noteq> - 100) (zip lg tg))"
    by (auto simp: list_all_iff)
  then show ?thesis by (simp add: cross_entropy_def Let_def)
qed

lemma GPT_forward_logits_ok:
  assumes wf: "wf_GPT cfg V m" and sh: "shape2 B T idx" and v: "valid_tokens V idx"
    and T: "T \<le> SEQ_LEN cfg"
  shows "\<exists>lg g'. shape3 B T V lg \<and>
           GPT_forward m idx None g = Inr ((Logits3 lg, None), g') \<and>
           (\<forall>tg. shape2 B T tg \<and> valid_tokens V tg \<longrightarrow>
              (\<exists>loss. GPT_forward m idx (Some tg) g = Inr ((Logits2 (concat lg), Some loss), g')))"
proof -
  let ?T = "case idx of [] \<Rightarrow> 0 | r # _ \<Rightarrow> length r"
  have w: "wf_Embedding V (EMBED_SIZE cfg) (token_embedding_table m)"
      "wf_Embedding (SEQ_LEN cfg) (EMBED_SIZE cfg) (position_embedding_table m)"
      "\<forall>b \<in> set (blocks m). wf_Block cfg b"
      "normalized_shape (ln_f m) = EMBED_SIZE cfg"
      "in_features (lm_head m) = EMBED_SIZE cfg" "out_features (lm_head m) = V"
    using wf by (simp_all add: wf_GPT_def wf_LayerNorm_def wf_Linear_def list_all_iff)
  have T': "?T \<le> SEQ_LEN cfg" "idx \<noteq> [] \<longrightarrow> ?T = T"
    using sh T by (cases idx; simp add: shape2_def)+
  obtain tok where tok: "Embedding_forward (token_embedding_table m) idx = Inr tok"
      "shape3 B T (EMBED_SIZE cfg) tok"
    using Embedding_forward_ok [OF w(1) sh v] by blast
  obtain pos where pos: "Embedding_forward1 (position_embedding_table m) (map int [0..<?T]) = Inr pos"
      "shape2 ?T (EMBED_SIZE cfg) pos"
    using Embedding_forward1_ok [OF w(2) T'(1)] by blast
  have "\<exists>x. add_broadcast tok pos = Inr x \<and> shape3 B T (EMBED_SIZE cfg) x"
  proof (cases "idx = []")
    case True
    then have "tok = []" "B = 0" using tok(2) sh by (auto simp: shape3_def shape2_def)
    then show ?thesis by (simp add: add_broadcast_Nil shape3_Nil)
  next
    case False
    then show ?thesis using add_broadcast_ok [OF tok(2)] pos(2) T'(2) by simp
  qed
  then obtain x where x: "add_broadcast tok pos = Inr x" "shape3 B T (EMBED_SIZE cfg) x" by blast
  obtain x1 g1 where x1: "Sequential_forward (blocks m) x g = Inr (x1, g1)"
      "shape3 B T (EMBED_SIZE cfg) x1"
    using Sequential_forward_ok [OF w(3) x(2) T] by blast
  obtain x2 where x2: "LayerNorm_forward (ln_f m) x1 = Inr x2" "shape3 B T (EMBED_SIZE cfg) x2"
    using LayerNorm_forward_ok [OF x1(2) w(4)] by blast
  obtain lg where lg: "Linear_forward (lm_head m) x2 = Inr lg" "shape3 B T V lg"
    using Linear_forward_ex [OF x2(2) w(5)] w(6) by auto
  have none: "GPT_forward m idx None g = Inr ((Logits3 lg, None), g1)"
    by (simp add: GPT_forward_def Let_def ebind_def tok(1) pos(1) x(1) x1(1) x2(1) lg(1))
  have some: "\<exists>loss. GPT_forward m idx (Some tg) g = Inr ((Logits2 (concat lg), Some loss), g1)"
    if tg: "shape2 B T tg" "valid_tokens V tg" for tg
  proof -
    have len: "length (concat tg) = length (concat lg)"
      using length_concat_shape2 [OF tg(1)] length_concat_shape3 [OF lg(2)] by simp
    have "\<forall>r \<in> set (concat lg). length r = V" using lg(2) by (auto simp: shape3_def list_all_iff)
    moreover have "\<forall>t \<in> set (concat tg). 0 \<le> t \<and> t < int V"
      using tg(2) by (auto simp: valid_tokens_def list_all_iff)
    ultimately obtain loss where "cross_entropy (concat lg) (concat tg) = Inr loss"
      using cross_entropy_ok by blast
    then show ?thesis
      using len by (simp add: GPT_forward_def Let_def ebind_def tok(1) pos(1) x(1) x1(1) x2(1) lg(1))
  qed
  show ?thesis using lg(2) none some by blast
qed

section \<open>Sampling extends the context by one token per step\<close>

lemma pick_less: "r \<noteq> [] \<Longrightarrow> pick r u < length r"
  by (induction r u rule: pick.induct) auto

lemma sum_list_exp_nonneg: "0 \<le> sum_list (map exp (r::real list))"
  by (induction r) simp_all

lemma sum_list_exp_pos: "r \<noteq> [] \<Longrightarrow> 0 < sum_list (map exp (r::real list))"
proof (cases r)
  case Nil
  assume "r \<noteq> []"
  with Nil show ?thesis by simp
next
  case (Cons a r')
  show ?thesis unfolding Cons using sum_list_exp_nonneg [of r'] exp_gt_zero [of a]
    by (simp add: add_pos_nonneg del: exp_gt_zero)
qed

lemma GPT_forward_None_ok:
  assumes "wf_GPT cfg V m" "shape2 B T idx" "valid_tokens V idx" "T \<le> SEQ_LEN cfg"
  shows "\<exists>lg g'. shape3 B T V lg \<and> GPT_forward m idx None g = Inr ((Logits3 lg, None), g')"
  using GPT_forward_logits_ok [OF assms, of g] by blast

lemma softmax_valid:
  assumes "r \<noteq> []"
  shows "softmax r \<noteq> [] \<and> list_all (\<lambda>q. 0 \<le> q) (softmax r) \<and> 0 < sum_list (softmax r) \<and>
         length (softmax r) = length r"
proof -
  let ?Z = "sum_list (map exp r)"
  have Z: "0 < ?Z" using sum_list_exp_pos [OF assms] .
  have "sum_list (softmax r) = (\<Sum>a\<leftarrow>r. exp a * (1 / ?Z))"
    by (simp add: softmax_def comp_def)
  also have "\<dots> = ?Z * (1 / ?Z)" using sum_list_mult_const [of exp "1 / ?Z" r] by simp
  finally have "sum_list (softmax r) = 1" using Z by simp
  moreover have "list_all (\<lambda>q. 0 \<le> q) (softmax r)"
    using Z by (auto simp: softmax_def list_all_iff)
  ultimately show ?thesis using assms by (simp add: softmax_def)
qed

lemma multinomial_ok:
  assumes "\<forall>r \<in> set probs. r \<noteq> [] \<and> list_all (\<lambda>q. 0 \<le> q) r \<and> 0 < sum_list r \<and> length r = V"
  shows "\<exists>nx g'. multinomial probs g = Inr (nx, g') \<and> shape2 (length probs) 1 nx \<and>
           valid_tokens V nx"
proof -
  let ?nx = "map2 (\<lambda>r u. [int (pick r (uniform01 u * sum_list r))]) probs (draws (length probs) g)"
  have "multinomial probs g = Inr (?nx, rng_skip (length probs) g)"
    using assms by (simp add: multinomial_def list_all_iff)
  moreover have "shape2 (length probs) 1 ?nx"
    by (auto simp: shape2_def draws_def list_all_iff dest: set_zip_leftD)
  moreover have "valid_tokens V ?nx"
    using assms pick_less
    by (fastforce simp: valid_tokens_def list_all_iff dest: set_zip_leftD)
  ultimately show ?thesis by blast
qed

lemma crop_shape:
  assumes "shape2 B T idx" "valid_tokens V idx" "0 < S"
  shows "shape2 B (min T S) (crop S idx) \<and> valid_tokens V (crop S idx)"
  using assms
  by (auto simp: shape2_def valid_tokens_def crop_def list_all_iff dest: in_set_dropD)

lemma last_step_ok:
  assumes "shape3 B T V lg" "0 < T"
  shows "\<exists>l. last_step lg = Inr l \<and> shape2 B V l"
proof -
  have "\<forall>m \<in> set lg. m \<noteq> [] \<and> length (last m) = V"
    using assms by (auto simp: shape3_def list_all_iff)
  then show ?thesis using assms(1) by (auto simp: last_step_def shape2_def shape3_def list_all_iff)
qed

lemma cat_dim1_ok:
  assumes "shape2 B T idx" "shape2 B 1 nx" "valid_tokens V idx" "valid_tokens V nx"
  shows "\<exists>y. cat_dim1 idx nx = Inr y \<and> shape2 B (Suc T) y \<and> valid_tokens V y"
proof -
  have "cat_dim1 idx nx = Inr (map2 (@) idx nx)" using assms by (simp add: cat_dim1_def shape2_def)
  moreover have "length (a @ b) = Suc T \<and> (\<forall>i \<in> set (a @ b). 0 \<le> i \<and> i < int V)"
    if "(a, b) \<in> set (zip idx nx)" for a b
    using set_zip_leftD [OF that] set_zip_rightD [OF that] assms
    by (auto simp: shape2_def valid_tokens_def list_all_iff)
  then have "shape2 B (Suc T) (map2 (@) idx nx)" "valid_tokens V (map2 (@) idx nx)"
    using assms(1,2) by (auto simp: shape2_def valid_tokens_def list_all_iff)
  ultimately show ?thesis by blast
qed

lemma generate_step_ok:
  assumes wf: "wf_GPT cfg V m" and sh: "shape2 B T idx" and v: "valid_tokens V idx"
    and T: "0 < T" and S: "0 < SEQ_LEN cfg"
  shows "\<exists>idx' g'. generate_step cfg m idx g = Inr (idx', g') \<and> shape2 B (Suc T) idx' \<and>
           valid_tokens V idx'"
proof -
  let ?c = "crop (SEQ_LEN cfg) idx" and ?T = "min T (SEQ_LEN cfg)"
  have c: "shape2 B ?T ?c" "valid_tokens V ?c" using crop_shape [OF sh v S] by auto
  obtain lg g1 where lg: "shape3 B ?T V lg" "GPT_forward m ?c None g = Inr ((Logits3 lg, None), g1)"
    using GPT_forward_None_ok [where g = g, OF wf c] by auto
  obtain l where l: "last_step lg = Inr l" "shape2 B V l"
    using last_step_ok [OF lg(1)] T S by auto
  have V: "0 < V \<or> B = 0"
  proof (cases idx)
    case Nil
    then show ?thesis using sh by (simp add: shape2_def)
  next
    case (Cons r rs)
    then obtain i where "i \<in> set r" using sh T by (cases r) (auto simp: shape2_def)
    then have "0 \<le> i \<and> i < int V" using v Cons by (auto simp: valid_tokens_def list_all_iff)
    then show ?thesis by auto
  qed
  have pr: "\<forall>r \<in> set (map softmax l). r \<noteq> [] \<and> list_all (\<lambda>q. 0 \<le> q) r \<and> 0 < sum_list r \<and> length r = V"
  proof
    fix r assume "r \<in> set (map softmax l)"
    then obtain r0 where r0: "r0 \<in> set l" "r = softmax r0" by auto
    then have "length r0 = V" "B \<noteq> 0" using l(2) by (auto simp: shape2_def list_all_iff)
    then have "r0 \<noteq> []" using V by auto
    from softmax_valid [OF this] show "r \<noteq> [] \<and> list_all (\<lambda>q. 0 \<le> q) r \<and> 0 < sum_list r \<and> length r = V"
      using r0(2) \<open>length r0 = V\<close> by simp
  qed
  obtain nx g2 where nx: "multinomial (map softmax l) g1 = Inr (nx, g2)" "shape2 B 1 nx"
      "valid_tokens V nx"
  proof -
    have "length (map softmax l) = B" using l(2) by (simp add: shape2_def)
    then show ?thesis using multinomial_ok [OF pr, of g1] that by auto
  qed
  obtain y where y: "cat_dim1 idx nx = Inr y" "shape2 B (Suc T) y" "valid_tokens V y"
    using cat_dim1_ok [OF sh nx(2) v nx(3)] by blast
  have "generate_step cfg m idx g = Inr (y, g2)"
    by (simp add: generate_step_def Let_def ebind_def lg(2) l(1) nx(1) y(1))
  then show ?thesis using y(2,3) by blast
qed

lemma generate_loop_ok:
  assumes wf: "wf_GPT cfg V m" and S: "0 < SEQ_LEN cfg"
  shows "shape2 B T idx \<Longrightarrow> valid_tokens V idx \<Longrightarrow> 0 < T \<Longrightarrow>
         \<exists>idx' g'. generate_loop cfg m n idx g = Inr (idx', g') \<and> shape2 B (T + n) idx' \<and>
           valid_tokens V idx'"
proof (induction n arbitrary: idx g T)
  case 0
  then show ?case by simp
next
  case (Suc n)
  obtain idx1 g1 where s1: "generate_step cfg m idx g = Inr (idx1, g1)" "shape2 B (Suc T) idx1"
      "valid_tokens V idx1"
    using generate_step_ok [OF wf Suc.prems(1,2,3) S] by blast
  obtain idx' g' where r: "generate_loop cfg m n idx1 g1 = Inr (idx', g')"
      "shape2 B (Suc T + n) idx'" "valid_tokens V idx'"
    using Suc.IH [OF s1(2,3), of g1] by auto
  have "generate_loop cfg m (Suc n) idx g = Inr (idx', g')" by (simp add: ebind_def s1(1) r(1))
  then show ?case using r(2,3) by simp
qed

section \<open>The constructors establish the shapes\<close>

lemma randn_shape: "shape2 rows cols (fst (randn rows cols g))"
  by (simp add: randn_def shape2_def list_all_iff)

lemma nn_Linear_wf: "wf_Linear n_in n_out (fst (nn_Linear n_in n_out b g))"
  using randn_shape [of n_out n_in g]
  by (auto simp: nn_Linear_def wf_Linear_def draws_def split: prod.splits)

lemma nn_Embedding_wf: "wf_Embedding n d (fst (nn_Embedding n d g))"
  using randn_shape [of n d g]
  by (auto simp: nn_Embedding_def wf_Embedding_def split: prod.splits)

lemma nn_LayerNorm_wf: "wf_LayerNorm n (nn_LayerNorm n)"
  by (simp add: nn_LayerNorm_def wf_LayerNorm_def)

lemma map_rng_all:
  assumes "\<And>x g. x \<in> set xs \<Longrightarrow> Q (fst (f x g))"
  shows "\<forall>y \<in> set (fst (map_rng f xs g)). Q y"
proof
  fix y assume "y \<in> set (fst (map_rng f xs g))"
  then obtain x g' where "x \<in> set xs" "y = fst (f x g')" using map_rng_set by fast
  then show "Q y" using assms by blast
qed

lemma init_normal_shape:
  assumes "shape2 r c w"
  shows "shape2 r c (fst (init_normal w mu sd g))"
proof -
  let ?f = "\<lambda>r g. (map (\<lambda>u. mu + sd * u) (draws (length r) g), rng_skip (length r) g)"
  have "length (fst (?f x g')) = c" if "x \<in> set w" for x g'
    using assms that by (simp add: shape2_def list_all_iff draws_def)
  then have "\<forall>y \<in> set (fst (map_rng ?f w g)). length y = c"
    using map_rng_all [of w "\<lambda>y. length y = c" ?f g] by blast
  moreover have "length (fst (map_rng ?f w g)) = r"
    using assms by (simp add: map_rng_length shape2_def)
  ultimately show ?thesis
    unfolding init_normal_def shape2_def list_all_iff by blast
qed

lemma init_weights_Linear_wf:
  assumes "wf_Linear i n l"
  shows "wf_Linear i n (fst (init_weights_Linear l g))"
proof -
  have "shape2 n i (fst (init_normal (weight l) 0 (2 / 100) g))"
    using assms init_normal_shape by (simp add: wf_Linear_def)
  then show ?thesis
    using assms by (auto simp: init_weights_Linear_def wf_Linear_def split: prod.splits option.splits)
qed

lemma init_weights_Embedding_wf:
  assumes "wf_Embedding n d e"
  shows "wf_Embedding n d (fst (init_weights_Embedding e g))"
proof -
  have "shape2 n d (fst (init_normal (emb_weight e) 0 (2 / 100) g))"
    using assms init_normal_shape by (simp add: wf_Embedding_def)
  then show ?thesis
    using assms by (auto simp: init_weights_Embedding_def wf_Embedding_def split: prod.splits)
qed

lemma Head_init_wf: "wf_Head cfg hs (fst (Head_init cfg hs g))"
proof -
  obtain k g1 where k: "nn_Linear (EMBED_SIZE cfg) hs False g = (k, g1)" by fastforce
  obtain q g2 where q: "nn_Linear (EMBED_SIZE cfg) hs False g1 = (q, g2)" by fastforce
  obtain v g3 where v: "nn_Linear (EMBED_SIZE cfg) hs False g2 = (v, g3)" by fastforce
  have "wf_Linear (EMBED_SIZE cfg) hs k" "wf_Linear (EMBED_SIZE cfg) hs q"
      "wf_Linear (EMBED_SIZE cfg) hs v"
    using nn_Linear_wf [of "EMBED_SIZE cfg" hs False g] nn_Linear_wf [of "EMBED_SIZE cfg" hs False g1]
      nn_Linear_wf [of "EMBED_SIZE cfg" hs False g2] k q v by simp_all
  then show ?thesis by (simp add: Head_init_def k q v wf_Head_def)
qed

lemma Head_init_training: "training (head_dropout (fst (Head_init cfg hs g)))"
  by (simp add: Head_init_def nn_Dropout_def split: prod.splits)

lemma Head_apply_wf:
  assumes "wf_Head cfg hs h"
  shows "wf_Head cfg hs (fst (Head_apply h g))"
proof -
  obtain k g1 where k: "init_weights_Linear (key h) g = (k, g1)" by fastforce
  obtain q g2 where q: "init_weights_Linear (query h) g1 = (q, g2)" by fastforce
  obtain v g3 where v: "init_weights_Linear (value h) g2 = (v, g3)" by fastforce
  have "wf_Linear (EMBED_SIZE cfg) hs k" "wf_Linear (EMBED_SIZE cfg) hs q"
      "wf_Linear (EMBED_SIZE cfg) hs v"
    using init_weights_Linear_wf [of "EMBED_SIZE cfg" hs "key h" g]
      init_weights_Linear_wf [of "EMBED_SIZE cfg" hs "query h" g1]
      init_weights_Linear_wf [of "EMBED_SIZE cfg" hs "value h" g2] k q v assms
    by (simp_all add: wf_Head_def)
  then show ?thesis using assms by (simp add: Head_apply_def k q v wf_Head_def)
qed

lemma wf_MultiHeadAttention_I:
  assumes "hds \<noteq> []" "\<forall>h \<in> set hds. wf_Head cfg hs h" "heads m = hds"
    "wf_Linear (length hds * hs) (EMBED_SIZE cfg) (proj m)"
  shows "wf_MultiHeadAttention cfg m"
proof -
  have "hd hds \<in> set hds" using assms(1) by simp
  then have "head_size (hd hds) = hs" using assms(2) by (auto simp: wf_Head_def)
  then show ?thesis using assms by (simp add: wf_MultiHeadAttention_def list_all_iff)
qed

lemma wf_MultiHeadAttention_D:
  assumes "wf_MultiHeadAttention cfg m"
  shows "heads m \<noteq> [] \<and> (\<forall>h \<in> set (heads m). wf_Head cfg (head_size (hd (heads m))) h) \<and>
         wf_Linear (length (heads m) * head_size (hd (heads m))) (EMBED_SIZE cfg) (proj m)"
  using assms by (simp add: wf_MultiHeadAttention_def list_all_iff)

lemma MultiHeadAttention_init_wf:
  assumes "0 < num_heads"
  shows "wf_MultiHeadAttention cfg (fst (MultiHeadAttention_init cfg num_heads hs g))"
proof -
  obtain hds g1 where h: "map_rng (\<lambda>_. Head_init cfg hs) [0..<num_heads] g = (hds, g1)" by fastforce
  obtain pr g2 where p: "nn_Linear (num_heads * hs) (EMBED_SIZE cfg) True g1 = (pr, g2)" by fastforce
  have len: "length hds = num_heads" using map_rng_length [of "\<lambda>_. Head_init cfg hs" "[0..<num_heads]" g] h by simp
  have all: "\<forall>y \<in> set hds. wf_Head cfg hs y"
    using map_rng_all [of "[0..<num_heads]" "wf_Head cfg hs" "\<lambda>_. Head_init cfg hs" g] Head_init_wf h
    by simp
  have pr: "wf_Linear (length hds * hs) (EMBED_SIZE cfg) pr"
    using nn_Linear_wf [of "num_heads * hs" "EMBED_SIZE cfg" True g1] p len by simp
  have ne: "hds \<noteq> []" using len assms by auto
  have "wf_MultiHeadAttention cfg \<lparr>heads = hds, proj = pr, mha_dropout = nn_Dropout (DROPOUT cfg)\<rparr>"
    by (rule wf_MultiHeadAttention_I [OF ne all]) (simp_all add: pr)
  then show ?thesis by (simp add: MultiHeadAttention_init_def h p)
qed

lemma MultiHeadAttention_apply_wf:
  assumes "wf_MultiHeadAttention cfg m"
  shows "wf_MultiHeadAttention cfg (fst (MultiHeadAttention_apply m g))"
proof -
  let ?hs = "head_size (hd (heads m))"
  note d = wf_MultiHeadAttention_D [OF assms]
  obtain hds g1 where h: "map_rng Head_apply (heads m) g = (hds, g1)" by fastforce
  obtain pr g2 where p: "init_weights_Linear (proj m) g1 = (pr, g2)" by fastforce
  have len: "length hds = length (heads m)" using map_rng_length [of Head_apply "heads m" g] h by simp
  have all: "\<forall>y \<in> set hds. wf_Head cfg ?hs y"
    using map_rng_all [of "heads m" "wf_Head cfg ?hs" Head_apply g] Head_apply_wf d h by simp
  have pr: "wf_Linear (length hds * ?hs) (EMBED_SIZE cfg) pr"
    using init_weights_Linear_wf [of _ _ "proj m" g1] d p len by simp
  have ne: "hds \<noteq> []" using len d by auto
  have "wf_MultiHeadAttention cfg (m\<lparr>heads := hds, proj := pr\<rparr>)"
    by (rule wf_MultiHeadAttention_I [OF ne all]) (simp_all add: pr)
  then show ?thesis by (simp add: MultiHeadAttention_apply_def h p)
qed

lemma FeedForward_init_wf: "wf_FeedForward cfg (fst (FeedForward_init cfg (EMBED_SIZE cfg) g))"
proof -
  obtain l0 g1 where a: "nn_Linear (EMBED_SIZE cfg) (4 * EMBED_SIZE cfg) True g = (l0, g1)" by fastforce
  obtain l2 g2 where b: "nn_Linear (4 * EMBED_SIZE cfg) (EMBED_SIZE cfg) True g1 = (l2, g2)" by fastforce
  show ?thesis
    using nn_Linear_wf [of "EMBED_SIZE cfg" "4 * EMBED_SIZE cfg" True g]
      nn_Linear_wf [of "4 * EMBED_SIZE cfg" "EMBED_SIZE cfg" True g1]
    by (simp add: FeedForward_init_def a b wf_FeedForward_def)
qed

lemma FeedForward_apply_wf:
  assumes "wf_FeedForward cfg f"
  shows "wf_FeedForward cfg (fst (FeedForward_apply f g))"
proof -
  obtain l0 g1 where a: "init_weights_Linear (net_0 f) g = (l0, g1)" by fastforce
  obtain l2 g2 where b: "init_weights_Linear (net_2 f) g1 = (l2, g2)" by fastforce
  show ?thesis
    using init_weights_Linear_wf [of _ _ "net_0 f" g] init_weights_Linear_wf [of _ _ "net_2 f" g1] assms
    by (simp add: FeedForward_apply_def a b wf_FeedForward_def)
qed

lemma Block_init_ok:
  assumes "0 < num_heads"
  shows "\<exists>b g'. Block_init cfg (EMBED_SIZE cfg) num_heads g = Inr (b, g') \<and> wf_Block cfg b"
proof -
  let ?hs = "EMBED_SIZE cfg div num_heads"
  obtain a g1 where a: "MultiHeadAttention_init cfg num_heads ?hs g = (a, g1)" by fastforce
  obtain f g2 where f: "FeedForward_init cfg (EMBED_SIZE cfg) g1 = (f, g2)" by fastforce
  have "wf_MultiHeadAttention cfg a" "wf_FeedForward cfg f"
    using MultiHeadAttention_init_wf [OF assms, of cfg ?hs g] FeedForward_init_wf [of cfg g1] a f
    by simp_all
  then show ?thesis
    using assms by (simp add: Block_init_def Let_def a f wf_Block_def nn_LayerNorm_wf)
qed

lemma Block_apply_wf:
  assumes "wf_Block cfg b"
  shows "wf_Block cfg (fst (Block_apply b g))"
proof -
  obtain a g1 where a: "MultiHeadAttention_apply (sa b) g = (a, g1)" by fastforce
  obtain f g2 where f: "FeedForward_apply (ffwd b) g1 = (f, g2)" by fastforce
  show ?thesis
    using MultiHeadAttention_apply_wf [of cfg "sa b" g] FeedForward_apply_wf [of cfg "ffwd b" g1] assms
    by (simp add: Block_apply_def a f wf_Block_def)
qed

lemma GPT_apply_wf:
  assumes "wf_GPT cfg V m"
  shows "wf_GPT cfg V (fst (GPT_apply m g))"
proof -
  obtain te g1 where te: "init_weights_Embedding (token_embedding_table m) g = (te, g1)" by fastforce
  obtain pe g2 where pe: "init_weights_Embedding (position_embedding_table m) g1 = (pe, g2)" by fastforce
  obtain bs g3 where bs: "map_rng Block_apply (blocks m) g2 = (bs, g3)" by fastforce
  obtain lh g4 where lh: "init_weights_Linear (lm_head m) g3 = (lh, g4)" by fastforce
  have w: "wf_Embedding V (EMBED_SIZE cfg) (token_embedding_table m)"
      "wf_Embedding (SEQ_LEN cfg) (EMBED_SIZE cfg) (position_embedding_table m)"
      "\<forall>b \<in> set (blocks m). wf_Block cfg b"
      "wf_LayerNorm (EMBED_SIZE cfg) (ln_f m)"
      "wf_Linear (EMBED_SIZE cfg) V (lm_head m)"
    using assms by (simp_all add: wf_GPT_def list_all_iff)
  have "wf_Block cfg (fst (Block_apply x g'))" if "x \<in> set (blocks m)" for x g'
    using w(3) that Block_apply_wf by blast
  then have "\<forall>y \<in> set (fst (map_rng Block_apply (blocks m) g2)). wf_Block cfg y"
    using map_rng_all [of "blocks m" "wf_Block cfg" Block_apply g2] by blast
  then have b: "\<forall>y \<in> set bs. wf_Block cfg y" using bs by simp
  have t: "wf_Embedding V (EMBED_SIZE cfg) te"
    using init_weights_Embedding_wf [OF w(1), of g] te by simp
  have p: "wf_Embedding (SEQ_LEN cfg) (EMBED_SIZE cfg) pe"
    using init_weights_Embedding_wf [OF w(2), of g1] pe by simp
  have l: "wf_Linear (EMBED_SIZE cfg) V lh"
    using init_weights_Linear_wf [OF w(5), of g3] lh by simp
  have "GPT_apply m g = (m\<lparr>token_embedding_table := te, position_embedding_table := pe,
      blocks := bs, lm_head := lh\<rparr>, g4)"
    by (simp add: GPT_apply_def te pe bs lh)
  then show ?thesis using t p l b w(4) by (simp add: wf_GPT_def list_all_iff)
qed

lemma GPT_init_ok:
  assumes "0 < NUM_HEADS cfg \<or> NUM_LAYERS cfg = 0"
  shows "\<exists>m g'. GPT_init cfg V g = Inr (m, g') \<and> wf_GPT cfg V m"
proof -
  obtain te g1 where te: "nn_Embedding V (EMBED_SIZE cfg) g = (te, g1)" by fastforce
  obtain pe g2 where pe: "nn_Embedding (SEQ_LEN cfg) (EMBED_SIZE cfg) g1 = (pe, g2)" by fastforce
  have "\<exists>y g'. Block_init cfg (EMBED_SIZE cfg) (NUM_HEADS cfg) g = Inr (y, g') \<and> wf_Block cfg y"
    if "x \<in> set [0..<NUM_LAYERS cfg]" for x :: nat and g
    using that assms Block_init_ok [of "NUM_HEADS cfg" cfg g] by auto
  then obtain bs g3 where bs:
      "emap_rng (\<lambda>_. Block_init cfg (EMBED_SIZE cfg) (NUM_HEADS cfg)) [0..<NUM_LAYERS cfg] g2 = Inr (bs, g3)"
      "\<forall>y \<in> set bs. wf_Block cfg y"
    using emap_rng_ok [of "[0..<NUM_LAYERS cfg]" "\<lambda>_. Block_init cfg (EMBED_SIZE cfg) (NUM_HEADS cfg)"
        "wf_Block cfg" g2] by blast
  obtain lh g4 where lh: "nn_Linear (EMBED_SIZE cfg) V True g3 = (lh, g4)" by fastforce
  let ?m0 = "\<lparr>token_embedding_table = te, position_embedding_table = pe, blocks = bs,
                ln_f = nn_LayerNorm (EMBED_SIZE cfg), lm_head = lh\<rparr>"
  have "wf_GPT cfg V ?m0"
    using nn_Embedding_wf [of V "EMBED_SIZE cfg" g] nn_Embedding_wf [of "SEQ_LEN cfg" "EMBED_SIZE cfg" g1]
      nn_Linear_wf [of "EMBED_SIZE cfg" V True g3] te pe lh bs(2)
    by (simp add: wf_GPT_def list_all_iff nn_LayerNorm_wf)
  then have "wf_GPT cfg V (fst (GPT_apply ?m0 g4))" by (rule GPT_apply_wf)
  moreover have "GPT_init cfg V g = Inr (GPT_apply ?m0 g4)"
    by (simp add: GPT_init_def te pe bs(1) lh ebind_def)
  ultimately show ?thesis by (cases "GPT_apply ?m0 g4") auto
qed

section \<open>Length of the generated sequence\<close>

lemma generate_step_prefix:
  assumes wf: "wf_GPT cfg V m" and sh: "shape2 B T idx" and v: "valid_tokens V idx"
    and T: "0 < T" and S: "0 < SEQ_LEN cfg"
  shows "\<exists>idx' g'. generate_step cfg m idx g = Inr (idx', g') \<and> shape2 B (Suc T) idx' \<and>
           valid_tokens V idx' \<and> map (take T) idx' = idx"
proof -
  obtain idx' g' where r: "generate_step cfg m idx g = Inr (idx', g')" "shape2 B (Suc T) idx'"
      "valid_tokens V idx'"
    using generate_step_ok [OF wf sh v T S, of g] by blast
  have "\<exists>nx. idx' = map2 (@) idx nx \<and> length nx = length idx"
    using r(1)
    by (auto simp: generate_step_def Let_def ebind_def cat_dim1_def
        split: sum.splits logits.splits prod.splits if_splits)
  then obtain nx where nx: "idx' = map2 (@) idx nx" "length nx = length idx" by blast
  have "map (take T) (map2 (@) idx nx) = idx"
    using sh nx(2)
    by (intro nth_equalityI) (auto simp: shape2_def list_all_length)
  then show ?thesis using r nx(1) by blast
qed

lemma generate_loop_prefix:
  assumes wf: "wf_GPT cfg V m" and S: "0 < SEQ_LEN cfg"
  shows "shape2 B T idx \<Longrightarrow> valid_tokens V idx \<Longrightarrow> 0 < T \<Longrightarrow>
         \<exists>idx' g'. generate_loop cfg m n idx g = Inr (idx', g') \<and> shape2 B (T + n) idx' \<and>
           valid_tokens V idx' \<and> map (take T) idx' = idx"
proof (induction n arbitrary: idx g T)
  case 0
  then show ?case by (simp add: shape2_def list_all_iff map_idI)
next
  case (Suc n)
  obtain idx1 g1 where s1: "generate_step cfg m idx g = Inr (idx1, g1)" "shape2 B (Suc T) idx1"
      "valid_tokens V idx1" "map (take T) idx1 = idx"
    using generate_step_prefix [OF wf Suc.prems(1,2,3) S, of g] by blast
  obtain idx' g' where r: "generate_loop cfg m n idx1 g1 = Inr (idx', g')"
      "shape2 B (Suc T + n) idx'" "valid_tokens V idx'" "map (take (Suc T)) idx' = idx1"
    using Suc.IH [OF s1(2,3), of g1] by auto
  have "map (take T) idx' = map (take T) (map (take (Suc T)) idx')"
    by (simp add: min_def)
  then have p: "map (take T) idx' = idx" using r(4) s1(4) by simp
  have "generate_loop cfg m (Suc n) idx g = Inr (idx', g')" by (simp add: ebind_def s1(1) r(1))
  then show ?case using r(2,3) p by simp
qed





section \<open>Construction with an embedding width that the head count does not divide\<close>

lemma emap_rng_set:
  "emap_rng f xs g = Inr (ys, g') \<Longrightarrow>
     length ys = length xs \<and> (\<forall>y \<in> set ys. \<exists>x \<in> set xs. \<exists>g0 g1. f x g0 = Inr (y, g1))"
proof (induction xs arbitrary: g ys g')
  case Nil
  then show ?case by simp
next
  case (Cons a xs)
  from Cons.prems obtain y g1 ys' where
    s: "f a g = Inr (y, g1)" "emap_rng f xs g1 = Inr (ys', g')" "ys = y # ys'"
    by (auto simp: ebind_def split: sum.splits prod.splits)
  from Cons.IH [OF s(2)] s(1,3) show ?case by auto
qed

lemma init_weights_Linear_features:
  "in_features (fst (init_weights_Linear l g)) = in_features l \<and>
   out_features (fst (init_weights_Linear l g)) = out_features l"
  by (simp add: init_weights_Linear_def split: prod.splits)

lemma nn_Linear_features:
  "in_features (fst (nn_Linear i n b g)) = i \<and> out_features (fst (nn_Linear i n b g)) = n"
  by (simp add: nn_Linear_def split: prod.splits)

lemma Head_init_fields:
  "head_size (fst (Head_init cfg hs g)) = hs \<and>
   head_dropout (fst (Head_init cfg hs g)) = nn_Dropout (DROPOUT cfg)"
  by (simp add: Head_init_def split: prod.splits)

lemma Head_apply_fields:
  "head_size (fst (Head_apply h g)) = head_size h \<and>
   head_dropout (fst (Head_apply h g)) = head_dropout h"
  by (simp add: Head_apply_def split: prod.splits)

lemma Block_init_fresh:
  assumes "Block_init cfg (EMBED_SIZE cfg) (NUM_HEADS cfg) g = Inr (b, g')"
  shows "Block_fresh cfg b"
proof -
  let ?H = "NUM_HEADS cfg" and ?hs = "EMBED_SIZE cfg div NUM_HEADS cfg"
  obtain hds g1 where h: "map_rng (\<lambda>_. Head_init cfg ?hs) [0..<?H] g = (hds, g1)" by fastforce
  obtain pr g2 where p: "nn_Linear (?H * ?hs) (EMBED_SIZE cfg) True g1 = (pr, g2)" by fastforce
  obtain f g3 where f: "FeedForward_init cfg (EMBED_SIZE cfg) g2 = (f, g3)" by fastforce
  have b: "b = \<lparr>sa = \<lparr>heads = hds, proj = pr, mha_dropout = nn_Dropout (DROPOUT cfg)\<rparr>, ffwd = f,
                ln1 = nn_LayerNorm (EMBED_SIZE cfg), ln2 = nn_LayerNorm (EMBED_SIZE cfg)\<rparr>"
    using assms
    by (simp add: Block_init_def Let_def MultiHeadAttention_init_def h p f split: if_splits)
  have len: "length hds = ?H"
    using map_rng_length [of "\<lambda>_. Head_init cfg ?hs" "[0..<?H]" g] h by simp
  have "head_size (fst (Head_init cfg ?hs g0)) = ?hs \<and>
        head_dropout (fst (Head_init cfg ?hs g0)) = nn_Dropout (DROPOUT cfg)" for g0
    by (rule Head_init_fields)
  then have "\<forall>y \<in> set (fst (map_rng (\<lambda>_. Head_init cfg ?hs) [0..<?H] g)).
      head_size y = ?hs \<and> head_dropout y = nn_Dropout (DROPOUT cfg)"
    using map_rng_all [of "[0..<?H]"
        "\<lambda>y. head_size y = ?hs \<and> head_dropout y = nn_Dropout (DROPOUT cfg)"
        "\<lambda>_. Head_init cfg ?hs" g] by blast
  then have all: "\<forall>y \<in> set hds. head_size y = ?hs \<and> head_dropout y = nn_Dropout (DROPOUT cfg)"
    using h by simp
  have pf: "in_features pr = ?H * ?hs" "out_features pr = EMBED_SIZE cfg"
    using nn_Linear_features [of "?H * ?hs" "EMBED_SIZE cfg" True g1] p by simp_all
  have n3: "net_3 f = nn_Dropout (DROPOUT cfg)"
    using f by (auto simp: FeedForward_init_def split: prod.splits)
  show ?thesis
    unfolding Block_fresh_def heads_of_config_def Block_dropouts_def b
    using len all pf n3 by (auto simp: list_all_iff)
qed

lemma Block_apply_fresh:
  assumes "Block_fresh cfg b"
  shows "Block_fresh cfg (fst (Block_apply b g))"
proof -
  let ?hs = "EMBED_SIZE cfg div NUM_HEADS cfg"
  obtain hds g1 where h: "map_rng Head_apply (heads (sa b)) g = (hds, g1)" by fastforce
  obtain pr g2 where p: "init_weights_Linear (proj (sa b)) g1 = (pr, g2)" by fastforce
  obtain l0 g3 where l0: "init_weights_Linear (net_0 (ffwd b)) g2 = (l0, g3)" by fastforce
  obtain l2 g4 where l2: "init_weights_Linear (net_2 (ffwd b)) g3 = (l2, g4)" by fastforce
  have e: "fst (Block_apply b g) =
      b\<lparr>sa := (sa b)\<lparr>heads := hds, proj := pr\<rparr>, ffwd := (ffwd b)\<lparr>net_0 := l0, net_2 := l2\<rparr>\<rparr>"
    by (simp add: Block_apply_def MultiHeadAttention_apply_def FeedForward_apply_def h p l0 l2)
  have old: "length (heads (sa b)) = NUM_HEADS cfg"
      "\<forall>x \<in> set (heads (sa b)). head_size x = ?hs \<and> head_dropout x = nn_Dropout (DROPOUT cfg)"
      "in_features (proj (sa b)) = NUM_HEADS cfg * ?hs" "out_features (proj (sa b)) = EMBED_SIZE cfg"
      "mha_dropout (sa b) = nn_Dropout (DROPOUT cfg)" "net_3 (ffwd b) = nn_Dropout (DROPOUT cfg)"
    using assms by (auto simp: Block_fresh_def heads_of_config_def Block_dropouts_def list_all_iff)
  have len: "length hds = NUM_HEADS cfg"
    using map_rng_length [of Head_apply "heads (sa b)" g] h old(1) by simp
  have "head_size (fst (Head_apply x g0)) = ?hs \<and>
        head_dropout (fst (Head_apply x g0)) = nn_Dropout (DROPOUT cfg)"
    if "x \<in> set (heads (sa b))" for x g0
    using Head_apply_fields [of x g0] old(2) that by simp
  then have "\<forall>y \<in> set (fst (map_rng Head_apply (heads (sa b)) g)).
      head_size y = ?hs \<and> head_dropout y = nn_Dropout (DROPOUT cfg)"
    using map_rng_all [of "heads (sa b)"
        "\<lambda>y. head_size y = ?hs \<and> head_dropout y = nn_Dropout (DROPOUT cfg)" Head_apply g] by blast
  then have all: "\<forall>y \<in> set hds. head_size y = ?hs \<and> head_dropout y = nn_Dropout (DROPOUT cfg)"
    using h by simp
  have pf: "in_features pr = NUM_HEADS cfg * ?hs" "out_features pr = EMBED_SIZE cfg"
    using init_weights_Linear_features [of "proj (sa b)" g1] p old(3,4) by simp_all
  show ?thesis
    unfolding e Block_fresh_def heads_of_config_def Block_dropouts_def
    using len all pf old(5,6) by (auto simp: list_all_iff)
qed

lemma GPT_init_fresh:
  assumes "GPT_init cfg V g = Inr (m, g')"
  shows "length (blocks m) = NUM_LAYERS cfg \<and> (\<forall>b \<in> set (blocks m). Block_fresh cfg b)"
proof -
  obtain te g1 where te: "nn_Embedding V (EMBED_SIZE cfg) g = (te, g1)" by fastforce
  obtain pe g2 where pe: "nn_Embedding (SEQ_LEN cfg) (EMBED_SIZE cfg) g1 = (pe, g2)" by fastforce
  from assms obtain bs g3 where bs:
      "emap_rng (\<lambda>_. Block_init cfg (EMBED_SIZE cfg) (NUM_HEADS cfg)) [0..<NUM_LAYERS cfg] g2 = Inr (bs, g3)"
    by (auto simp: GPT_init_def te pe ebind_def split: sum.splits)
  obtain lh g4 where lh: "nn_Linear (EMBED_SIZE cfg) V True g3 = (lh, g4)" by fastforce
  let ?m0 = "\<lparr>token_embedding_table = te, position_embedding_table = pe, blocks = bs,
                ln_f = nn_LayerNorm (EMBED_SIZE cfg), lm_head = lh\<rparr>"
  have m: "m = fst (GPT_apply ?m0 g4)"
    using assms by (simp add: GPT_init_def te pe bs lh ebind_def)
  have bl: "blocks m = fst (map_rng Block_apply bs (snd (init_weights_Embedding pe
        (snd (init_weights_Embedding te g4)))))"
    unfolding m by (simp add: GPT_apply_def split: prod.splits)
  note es = emap_rng_set [OF bs]
  have fr: "\<forall>x \<in> set bs. Block_fresh cfg x" using es Block_init_fresh by blast
  have "Block_fresh cfg (fst (Block_apply x g0))" if "x \<in> set bs" for x g0
    using fr that Block_apply_fresh by blast
  then have "\<forall>y \<in> set (blocks m). Block_fresh cfg y"
    unfolding bl using map_rng_all [of bs "Block_fresh cfg" Block_apply] by blast
  moreover have "length (blocks m) = NUM_LAYERS cfg"
    unfolding bl using es by (simp add: map_rng_length)
  ultimately show ?thesis by blast
qed




section \<open>The training script\<close>



lemma main_generate_only:
  assumes tk: "w_get_tokenizer w = Inr tk" and pd: "w_preprocess_data w = Inr d"
    and m: "GPT_init cfg (get_vocab_size tk) g = Inr (m, g1)"
    and nl: "\<not> truthy_str (arg_load_checkpoint a)"
    and gen: "arg_generate a = Some n" "n \<noteq> 0"
    and out: "GPT_generate cfg m [[0]] 300 g1 = Inr (out, g2)" "out \<noteq> []"
  shows "main w cfg a fs g = Returned
           [EvGetTokenizer, EvPreprocessData, EvGPT (get_vocab_size tk), EvAdamW,
            EvPrintGenerating n, EvGenerate 300 out, EvPrint (decode tk (hd out))] fs"
proof -
  obtain tr ev where d: "d = (tr, ev)" by (cases d)
  obtain row rest where o: "out = row # rest" using out(2) by (cases out) auto
  show ?thesis
    using nl
    by (simp add: main_def tk pd d m main_run_def truthy_int_def gen ebind_def
        main_generate_def Let_def record_event_def attempt_def out(1) o)
qed

lemma main_generate_only_ok:
  assumes tk: "w_get_tokenizer w = Inr tk" and pd: "w_preprocess_data w = Inr d"
    and H: "0 < NUM_HEADS cfg" and S: "0 < SEQ_LEN cfg" and V: "0 < get_vocab_size tk"
    and nl: "\<not> truthy_str (arg_load_checkpoint a)"
    and gen: "arg_generate a = Some n" "n \<noteq> 0"
  shows "\<exists>out. shape2 1 301 out \<and> main w cfg a fs g = Returned
           [EvGetTokenizer, EvPreprocessData, EvGPT (get_vocab_size tk), EvAdamW,
            EvPrintGenerating n, EvGenerate 300 out, EvPrint (decode tk (hd out))] fs"
proof -
  obtain m g1 where m: "GPT_init cfg (get_vocab_size tk) g = Inr (m, g1)"
      "wf_GPT cfg (get_vocab_size tk) m"
    using GPT_init_ok [of cfg "get_vocab_size tk" g] H by blast
  have h3: "shape2 1 1 [[0::int]]" by (simp add: shape2_def)
  have h4: "valid_tokens (get_vocab_size tk) [[0]]" using V by (simp add: valid_tokens_def)
  obtain out g2 where out: "generate_loop cfg m 300 [[0]] g1 = Inr (out, g2)" "shape2 1 (1 + 300) out"
    using generate_loop_prefix [OF m(2) S h3 h4, of 300 g1] by auto
  have o: "GPT_generate cfg m [[0]] 300 g1 = Inr (out, g2)" "out \<noteq> []" "shape2 1 301 out"
    using out by (auto simp: GPT_generate_def shape2_def)
  show ?thesis using main_generate_only [OF tk pd m(1) nl gen o(1,2)] o(3) by blast
qed

lemma map_rng_hd:
  assumes "xs \<noteq> []"
  shows "fst (map_rng f xs g) ! 0 = fst (f (xs ! 0) g)"
  using assms by (cases xs) (auto split: prod.splits)

lemma Dropout_forward_first:
  assumes "training d" and "x \<noteq> []" "x ! 0 \<noteq> []" "x ! 0 ! 0 \<noteq> []"
  shows "fst (Dropout_forward d x g) ! 0 ! 0 ! 0 = dropout_elem (drop_p d) (g 0) (x ! 0 ! 0 ! 0)"
proof -
  have n: "0 < length (x ! 0 ! 0)" using assms(4) by simp
  have "fst (dropout_vec (drop_p d) (x ! 0 ! 0) g) ! 0 = dropout_elem (drop_p d) (g 0) (x ! 0 ! 0 ! 0)"
    using n by (simp add: dropout_vec_def draws_def)
  then show ?thesis
    using assms by (simp add: Dropout_forward_def map_rng_hd)
qed

lemma dropout_elem_changes:
  assumes "0 < q" "q < 1" "a \<noteq> 0"
  shows "dropout_elem q u a \<noteq> a"
proof (cases "uniform01 u < q")
  case True
  then show ?thesis using assms by (simp add: dropout_elem_def)
next
  case False
  have "a / (1 - q) = a \<longleftrightarrow> a = a * (1 - q)" using assms by (simp add: field_simps)
  also have "\<dots> \<longleftrightarrow> a * q = 0" by (simp add: algebra_simps)
  finally show ?thesis using False assms by (simp add: dropout_elem_def)
qed

lemma Head_weights_training_differ:
  assumes sh: "shape3 B T (EMBED_SIZE cfg) x" and T: "T \<le> SEQ_LEN cfg" "0 < T" and B: "0 < B"
    and wf: "wf_Head cfg hs h"
    and tr: "training (head_dropout h)" "0 < drop_p (head_dropout h)" "drop_p (head_dropout h) < 1"
  shows "\<exists>wei wei' g'. Head_attention h x = Inr wei \<and> Head_weights h x g = Inr (wei', g') \<and>
           wei ! 0 ! 0 ! 0 = 1 \<and> wei' ! 0 ! 0 ! 0 \<noteq> wei ! 0 ! 0 ! 0"
proof -
  have k: "in_features (key h) = EMBED_SIZE cfg" and q: "in_features (query h) = EMBED_SIZE cfg"
    and tl: "tril h = torch_tril (torch_ones (SEQ_LEN cfg) (SEQ_LEN cfg))"
    using wf by (simp_all add: wf_Head_def wf_Linear_def)
  obtain wei where wei: "Head_attention h x = Inr wei" "shape3 B T T wei"
      "\<forall>b < B. \<forall>i < T. (\<forall>j < T. i < j \<longrightarrow> wei ! b ! i ! j = 0) \<and> sum_list (wei ! b ! i) = 1"
    using Head_attention_weights [OF sh T(1) k q tl] by blast
  have l: "length wei = B" "length (wei ! 0) = T" "length (wei ! 0 ! 0) = T"
    using wei(2) B T(2) by (auto simp: shape3_def list_all_length)
  have z: "\<forall>j < T. 0 < j \<longrightarrow> wei ! 0 ! 0 ! j = 0" and s: "sum_list (wei ! 0 ! 0) = 1"
    using wei(3) B T(2) by auto
  have "wei ! 0 ! 0 = (wei ! 0 ! 0 ! 0) # replicate (T - 1) 0"
    using l(3) z T(2) by (intro nth_equalityI) (auto simp: nth_Cons')
  then have "sum_list (wei ! 0 ! 0) = wei ! 0 ! 0 ! 0"
    by (metis add.right_neutral sum_list.Cons sum_list_replicate mult_zero_right)
  then have one: "wei ! 0 ! 0 ! 0 = 1" using s by simp
  have ne: "wei \<noteq> []" "wei ! 0 \<noteq> []" "wei ! 0 ! 0 \<noteq> []" using l B T(2) by auto
  let ?r = "Dropout_forward (head_dropout h) wei g"
  have hw: "Head_weights h x g = Inr (fst ?r, snd ?r)"
    by (simp add: Head_weights_def ebind_def wei(1))
  have "fst ?r ! 0 ! 0 ! 0 = dropout_elem (drop_p (head_dropout h)) (g 0) 1"
    using Dropout_forward_first [OF tr(1) ne, of g] one by simp
  then have "fst ?r ! 0 ! 0 ! 0 \<noteq> wei ! 0 ! 0 ! 0"
    using dropout_elem_changes [OF tr(2,3), of 1 "g 0"] one by simp
  then show ?thesis using wei(1) hw one by blast
qed

lemma get_batch_ok:
  assumes L: "SEQ_LEN cfg < length (D sp)" and B: "0 < BATCH_SIZE cfg"
    and v: "list_all (\<lambda>t. 0 \<le> t \<and> t < int V) (D sp)"
  shows "\<exists>x y g'. get_batch cfg D sp g = Inr ((x, y), g') \<and>
           shape2 (BATCH_SIZE cfg) (SEQ_LEN cfg) x \<and> shape2 (BATCH_SIZE cfg) (SEQ_LEN cfg) y \<and>
           valid_tokens V x \<and> valid_tokens V y"
proof -
  let ?S = "SEQ_LEN cfg" and ?B = "BATCH_SIZE cfg" and ?L = "length (D sp)"
  let ?high = "int ?L - int ?S"
  have high: "0 < ?high" using L by simp
  obtain ix where ix: "randint ?high ?B g = Inr (ix, rng_skip ?B g)" "length ix = ?B"
      "\<forall>s \<in> set ix. s < nat ?high"
    using randint_ok [OF high] by blast
  have fit: "s + ?S + 1 \<le> ?L" if "s \<in> set ix" for s
    using ix(3) that by fastforce
  let ?x = "map (\<lambda>i. py_slice (D sp) i (i + ?S)) ix"
  let ?y = "map (\<lambda>i. py_slice (D sp) (i + 1) (i + 1 + ?S)) ix"
  have ne: "ix \<noteq> []" using ix(2) B by auto
  have lx: "\<forall>t \<in> set ?x. length t = ?S" using fit by (fastforce simp: py_slice_length)
  have ly: "\<forall>t \<in> set ?y. length t = ?S" using fit by (fastforce simp: py_slice_length)
  have sx: "stack ?x = Inr ?x" using stack_ok [OF _ lx] ne by simp
  have sy: "stack ?y = Inr ?y" using stack_ok [OF _ ly] ne by simp
  have gb: "get_batch cfg D sp g = Inr ((?x, ?y), rng_skip ?B g)"
    using sx sy by (simp add: get_batch_def Let_def ebind_def ix(1))
  have sub: "set (py_slice (D sp) a b) \<subseteq> set (D sp)" for a b
    unfolding py_slice_def by (meson set_take_subset set_drop_subset subset_trans)
  have vx: "valid_tokens V ?x" "valid_tokens V ?y"
    using v sub by (auto simp: valid_tokens_def list_all_iff)
  have "shape2 ?B ?S ?x" "shape2 ?B ?S ?y"
    using lx ly ix(2) by (simp_all add: shape2_def list_all_iff)
  then show ?thesis using gb vx by blast
qed

lemma Head_train_wf: "wf_Head cfg hs h \<Longrightarrow> wf_Head cfg hs (Head_train mode h)"
  by (simp add: wf_Head_def Head_train_def)

lemma MultiHeadAttention_train_wf:
  assumes "wf_MultiHeadAttention cfg m"
  shows "wf_MultiHeadAttention cfg (MultiHeadAttention_train mode m)"
proof -
  note d = wf_MultiHeadAttention_D [OF assms]
  show ?thesis
  proof (rule wf_MultiHeadAttention_I [of "map (Head_train mode) (heads m)" cfg "head_size (hd (heads m))"])
    show "map (Head_train mode) (heads m) \<noteq> []" using d by simp
    show "\<forall>h \<in> set (map (Head_train mode) (heads m)). wf_Head cfg (head_size (hd (heads m))) h"
      using d Head_train_wf by auto
    show "heads (MultiHeadAttention_train mode m) = map (Head_train mode) (heads m)"
      by (simp add: MultiHeadAttention_train_def)
    show "wf_Linear (length (map (Head_train mode) (heads m)) * head_size (hd (heads m)))
        (EMBED_SIZE cfg) (proj (MultiHeadAttention_train mode m))"
      using d by (simp add: MultiHeadAttention_train_def)
  qed
qed

lemma Block_train_wf: "wf_Block cfg b \<Longrightarrow> wf_Block cfg (Block_train mode b)"
  using MultiHeadAttention_train_wf [of cfg "sa b" mode]
  by (simp add: wf_Block_def Block_train_def wf_FeedForward_def FeedForward_train_def)

lemma GPT_train_wf: "wf_GPT cfg V m \<Longrightarrow> wf_GPT cfg V (GPT_train mode m)"
  using Block_train_wf by (auto simp: wf_GPT_def GPT_train_def list_all_iff)

lemma eval_iters_ok:
  assumes wf: "wf_GPT cfg V m"
    and L: "SEQ_LEN cfg < length (D sp)" and B: "0 < BATCH_SIZE cfg"
    and v: "list_all (\<lambda>t. 0 \<le> t \<and> t < int V) (D sp)"
  shows "\<exists>ls g'. eval_iters cfg D m sp k g = Inr (ls, g')"
proof (induction k arbitrary: g)
  case 0
  show ?case by simp
next
  case (Suc k)
  obtain x y g1 where b: "get_batch cfg D sp g = Inr ((x, y), g1)"
      "shape2 (BATCH_SIZE cfg) (SEQ_LEN cfg) x" "shape2 (BATCH_SIZE cfg) (SEQ_LEN cfg) y"
      "valid_tokens V x" "valid_tokens V y"
    using get_batch_ok [where D = D and sp = sp and g = g, OF L B v] by blast
  obtain lg g2 where f: "shape3 (BATCH_SIZE cfg) (SEQ_LEN cfg) V lg"
      "\<forall>tg. shape2 (BATCH_SIZE cfg) (SEQ_LEN cfg) tg \<and> valid_tokens V tg \<longrightarrow>
         (\<exists>loss. GPT_forward m x (Some tg) g1 = Inr ((Logits2 (concat lg), Some loss), g2))"
    using GPT_forward_logits_ok [OF wf b(2,4), of g1] by auto
  then obtain loss where l: "GPT_forward m x (Some y) g1 = Inr ((Logits2 (concat lg), Some loss), g2)"
    using b(3,5) by blast
  obtain ls g3 where r: "eval_iters cfg D m sp k g2 = Inr (ls, g3)" using Suc [of g2] by blast
  show ?case by (simp add: ebind_def b(1) l r)
qed

lemma estimate_loss_ok:
  assumes wf: "wf_GPT cfg V m" and B: "0 < BATCH_SIZE cfg"
    and L: "\<And>sp. SEQ_LEN cfg < length (D sp)"
    and v: "\<And>sp. list_all (\<lambda>t. 0 \<le> t \<and> t < int V) (D sp)"
  shows "\<exists>r g'. estimate_loss cfg D m g = Inr (r, GPT_train True (GPT_train False m), g')"
proof -
  have w: "wf_GPT cfg V (GPT_train False m)" using wf by (rule GPT_train_wf)
  obtain lt g1 where a: "eval_iters cfg D (GPT_train False m) TRAIN EVAL_ITERS g = Inr (lt, g1)"
    using eval_iters_ok [where D = D and sp = TRAIN and g = g and k = EVAL_ITERS, OF w L B v] by blast
  obtain le g2 where b: "eval_iters cfg D (GPT_train False m) EVAL EVAL_ITERS g1 = Inr (le, g2)"
    using eval_iters_ok [where D = D and sp = EVAL and g = g1 and k = EVAL_ITERS, OF w L B v] by blast
  show ?thesis by (simp add: estimate_loss_def Let_def ebind_def a b)
qed

lemma checkpoint_epochs_append:
  "checkpoint_epochs (tr @ tr') = checkpoint_epochs tr @ checkpoint_epochs tr'"
  by (simp add: checkpoint_epochs_def)

lemma checkpoint_epochs_Nil: "checkpoint_epochs [] = []"
  by (simp add: checkpoint_epochs_def)

lemma checkpoint_epochs_Cons:
  "checkpoint_epochs (ev # tr) =
     (case ev of EvSaveCheckpoint f i \<Rightarrow> [i] | _ \<Rightarrow> []) @ checkpoint_epochs tr"
  by (simp add: checkpoint_epochs_def)

lemma save_checkpoint_ok:
  "save_checkpoint (Some f) i l m opt fs =
     Inr (fs(f \<mapsto> CheckpointFile
       [(''epoch'', PyInt i), (''model_state_dict'', ModelState (GPT_state_dict m)),
        (''optimizer_state_dict'', OptimState opt), (''loss'', PyLoss l)]))"
  by (simp add: save_checkpoint_def torch_save_def)

lemma train_iter_ok:
  assumes step: "\<And>m opt b g. wf_GPT cfg V m \<Longrightarrow> wf_GPT cfg V (fst (w_step w m opt b g))"
    and B: "0 < BATCH_SIZE cfg"
    and L: "\<And>sp. SEQ_LEN cfg < length (st_DATA s sp)"
    and v: "\<And>sp. list_all (\<lambda>t. 0 \<le> t \<and> t < int V) (st_DATA s sp)"
    and wf: "wf_GPT cfg V (st_model s)"
    and K: "arg_checkpoint_interval a \<noteq> 0" and P: "arg_save_checkpoint a = Some f"
  shows "\<exists>s'. train_iter w cfg a epoch i s = Inr s' \<and> wf_GPT cfg V (st_model s') \<and>
           st_DATA s' = st_DATA s \<and>
           checkpoint_epochs (st_trace s') =
             checkpoint_epochs (st_trace s) @ (if checkpoint_due a epoch i then [i] else []) \<and>
           (checkpoint_due a epoch i \<longrightarrow> holds_epoch (st_fs s') f i)"
proof -
  let ?est = "i \<noteq> epoch \<and> i mod EVAL_INTERVAL = 0"
  have "\<exists>s1. (if ?est
        then attempt s (estimate_loss cfg (st_DATA s) (st_model s) (st_rng s)) (\<lambda>(losses, model, g).
               Inr (record_event (EvEstimateLoss i) (s\<lparr>st_model := model, st_rng := g\<rparr>)))
        else Inr s) = Inr s1 \<and> wf_GPT cfg V (st_model s1) \<and> st_DATA s1 = st_DATA s \<and>
        checkpoint_epochs (st_trace s1) = checkpoint_epochs (st_trace s)"
  proof (cases ?est)
    case True
    obtain r g' where e: "estimate_loss cfg (st_DATA s) (st_model s) (st_rng s)
        = Inr (r, GPT_train True (GPT_train False (st_model s)), g')"
      using estimate_loss_ok [where D = "st_DATA s" and g = "st_rng s", OF wf B L v] by blast
    have "wf_GPT cfg V (GPT_train True (GPT_train False (st_model s)))"
      using wf by (intro GPT_train_wf)
    then show ?thesis
      using True by (simp add: attempt_def e record_event_def checkpoint_epochs_append checkpoint_epochs_Nil checkpoint_epochs_Cons)
  next
    case False
    then show ?thesis using wf by auto
  qed
  then obtain s1 where s1: "(if ?est
        then attempt s (estimate_loss cfg (st_DATA s) (st_model s) (st_rng s)) (\<lambda>(losses, model, g).
               Inr (record_event (EvEstimateLoss i) (s\<lparr>st_model := model, st_rng := g\<rparr>)))
        else Inr s) = Inr s1" "wf_GPT cfg V (st_model s1)" "st_DATA s1 = st_DATA s"
        "checkpoint_epochs (st_trace s1) = checkpoint_epochs (st_trace s)"
    by blast
  have L1: "SEQ_LEN cfg < length (st_DATA s1 TRAIN)"
    and v1: "list_all (\<lambda>t. 0 \<le> t \<and> t < int V) (st_DATA s1 TRAIN)"
    using L v s1(3) by simp_all
  obtain x y g1 where b: "get_batch cfg (st_DATA s1) TRAIN (st_rng s1) = Inr ((x, y), g1)"
      "shape2 (BATCH_SIZE cfg) (SEQ_LEN cfg) x" "shape2 (BATCH_SIZE cfg) (SEQ_LEN cfg) y"
      "valid_tokens V x" "valid_tokens V y"
    using get_batch_ok [where D = "st_DATA s1" and sp = TRAIN and g = "st_rng s1", OF L1 B v1]
    by blast
  obtain lg g2 where f: "shape3 (BATCH_SIZE cfg) (SEQ_LEN cfg) V lg"
      "\<forall>tg. shape2 (BATCH_SIZE cfg) (SEQ_LEN cfg) tg \<and> valid_tokens V tg \<longrightarrow>
         (\<exists>loss. GPT_forward (st_model s1) x (Some tg) g1
            = Inr ((Logits2 (concat lg), Some loss), g2))"
    using GPT_forward_logits_ok [OF s1(2) b(2,4), of g1] by auto
  then obtain loss where l: "GPT_forward (st_model s1) x (Some y) g1
      = Inr ((Logits2 (concat lg), Some loss), g2)"
    using b(3,5) by blast
  obtain m' o' where st: "w_step w (st_model s1) (st_optim s1) (x, y) g1 = (m', o')"
    by fastforce
  have wm: "wf_GPT cfg V m'" using step [OF s1(2), of "st_optim s1" "(x, y)" g1] st by simp
  let ?s2 = "record_event (EvStep i)
      (s1\<lparr>st_model := m', st_optim := o', st_loss := Loss loss, st_rng := g2\<rparr>)"
  have ce2: "checkpoint_epochs (st_trace ?s2) = checkpoint_epochs (st_trace s)"
    by (simp add: record_event_def checkpoint_epochs_append checkpoint_epochs_Nil checkpoint_epochs_Cons s1(4))
  have due: "checkpoint_due a epoch i \<longleftrightarrow>
      (i \<noteq> epoch \<and> i mod arg_checkpoint_interval a = 0) \<or> i = arg_epochs a - 1"
    by (simp add: checkpoint_due_def)
  show ?thesis
  proof (cases "checkpoint_due a epoch i")
    case True
    let ?fs = "(st_fs s1)(f \<mapsto> CheckpointFile
       [(''epoch'', PyInt i), (''model_state_dict'', ModelState (GPT_state_dict m')),
        (''optimizer_state_dict'', OptimState o'), (''loss'', PyLoss (Loss loss))])"
    let ?s3 = "record_event (EvSaveCheckpoint f i) (?s2\<lparr>st_fs := ?fs\<rparr>)"
    have "train_iter w cfg a epoch i s = Inr ?s3"
      unfolding train_iter_def s1(1) using True K due
      by (simp add: ebind_def attempt_def b(1) l st Let_def P save_checkpoint_ok record_event_def)
    moreover have "wf_GPT cfg V (st_model ?s3)" "st_DATA ?s3 = st_DATA s"
      using wm s1(3) by (simp_all add: record_event_def)
    moreover have "checkpoint_epochs (st_trace ?s3) = checkpoint_epochs (st_trace s) @ [i]"
      using ce2 by (simp add: record_event_def checkpoint_epochs_append checkpoint_epochs_Nil checkpoint_epochs_Cons)
    moreover have "holds_epoch (st_fs ?s3) f i"
      by (simp add: record_event_def holds_epoch_def)
    ultimately show ?thesis using True by auto
  next
    case False
    have nd: "\<not> (i \<noteq> epoch \<and> i mod arg_checkpoint_interval a = 0)" "i \<noteq> arg_epochs a - 1"
      using False due by auto
    have "train_iter w cfg a epoch i s = Inr ?s2"
      unfolding train_iter_def s1(1) using nd K
      by (auto simp: ebind_def attempt_def b(1) l st Let_def record_event_def)
    moreover have "wf_GPT cfg V (st_model ?s2)" "st_DATA ?s2 = st_DATA s"
      using wm s1(3) by (simp_all add: record_event_def)
    ultimately show ?thesis using False ce2 by auto
  qed
qed

lemma train_loop_ok:
  assumes step: "\<And>m opt b g. wf_GPT cfg V m \<Longrightarrow> wf_GPT cfg V (fst (w_step w m opt b g))"
    and B: "0 < BATCH_SIZE cfg"
    and K: "arg_checkpoint_interval a \<noteq> 0" and P: "arg_save_checkpoint a = Some f"
  shows "(\<And>sp. SEQ_LEN cfg < length (st_DATA s sp)) \<Longrightarrow>
         (\<And>sp. list_all (\<lambda>t. 0 \<le> t \<and> t < int V) (st_DATA s sp)) \<Longrightarrow>
         wf_GPT cfg V (st_model s) \<Longrightarrow>
         \<exists>s'. train_loop w cfg a epoch [lo..hi] s = Inr s' \<and>
           checkpoint_epochs (st_trace s') =
             checkpoint_epochs (st_trace s) @ filter (checkpoint_due a epoch) [lo..hi] \<and>
           (lo \<le> hi \<and> checkpoint_due a epoch hi \<longrightarrow> holds_epoch (st_fs s') f hi)"
proof (induction "nat (hi - lo + 1)" arbitrary: lo s)
  case 0
  then have "[lo..hi] = []" by simp
  moreover have "\<not> lo \<le> hi" using 0 by simp
  ultimately show ?case by simp
next
  case (Suc n)
  have le: "lo \<le> hi" using Suc(2) by simp
  have u: "[lo..hi] = lo # [lo + 1..hi]" using le by (simp add: upto_rec1)
  obtain s1 where s1: "train_iter w cfg a epoch lo s = Inr s1" "wf_GPT cfg V (st_model s1)"
      "st_DATA s1 = st_DATA s"
      "checkpoint_epochs (st_trace s1) =
         checkpoint_epochs (st_trace s) @ (if checkpoint_due a epoch lo then [lo] else [])"
      "checkpoint_due a epoch lo \<longrightarrow> holds_epoch (st_fs s1) f lo"
    using train_iter_ok [where s = s and i = lo and epoch = epoch, OF step B Suc(3,4,5) K P]
    by blast
  have n: "n = nat (hi - (lo + 1) + 1)" using Suc(2) by simp
  have L1: "\<And>sp. SEQ_LEN cfg < length (st_DATA s1 sp)"
    and v1: "\<And>sp. list_all (\<lambda>t. 0 \<le> t \<and> t < int V) (st_DATA s1 sp)"
    using Suc(3,4) s1(3) by simp_all
  obtain s' where s': "train_loop w cfg a epoch [lo + 1..hi] s1 = Inr s'"
      "checkpoint_epochs (st_trace s') =
         checkpoint_epochs (st_trace s1) @ filter (checkpoint_due a epoch) [lo + 1..hi]"
      "lo + 1 \<le> hi \<and> checkpoint_due a epoch hi \<longrightarrow> holds_epoch (st_fs s') f hi"
    using Suc(1) [OF n L1 v1 s1(2)] by blast
  have run: "train_loop w cfg a epoch [lo..hi] s = Inr s'"
    unfolding u by (simp add: ebind_def s1(1) s'(1))
  have tr: "checkpoint_epochs (st_trace s') =
      checkpoint_epochs (st_trace s) @ filter (checkpoint_due a epoch) [lo..hi]"
    unfolding u using s'(2) s1(4) by simp
  have fs: "holds_epoch (st_fs s') f hi" if d: "checkpoint_due a epoch hi"
  proof (cases "lo = hi")
    case True
    then have "[lo + 1..hi] = []" by simp
    then have "s' = s1" using s'(1) by simp
    then show ?thesis using s1(5) d True by simp
  next
    case False
    then show ?thesis using s'(3) d le by simp
  qed
  show ?case using run tr fs by blast
qed

lemma main_training_run:
  assumes tk: "w_get_tokenizer w = Inr tk" and pd: "w_preprocess_data w = Inr (tr, ev)"
    and m: "GPT_init cfg (get_vocab_size tk) g = Inr (m, g1)"
    and nl: "\<not> truthy_str (arg_load_checkpoint a)" and ng: "\<not> truthy_int (arg_generate a)"
  shows "main w cfg a fs g =
     (case train_loop w cfg a 0 [0..arg_epochs a - 1]
             \<lparr>st_DATA = (\<lambda>sp. case sp of TRAIN \<Rightarrow> tr | EVAL \<Rightarrow> ev),
              st_model = m, st_optim = w_AdamW w m, st_loss = LossInf, st_rng = g1,
              st_fs = fs,
              st_trace = [EvGetTokenizer, EvPreprocessData, EvGPT (get_vocab_size tk), EvAdamW]\<rparr> of
        Inl (e, s) \<Rightarrow> Raised e (st_trace s) (st_fs s)
      | Inr s \<Rightarrow> Returned (st_trace s) (st_fs s))"
  using nl ng by (simp add: main_def tk pd m main_run_def ebind_def)

lemma example_main_checkpoints:
  assumes e: "arg_load_checkpoint a = None" "arg_generate a = None"
    "arg_checkpoint_interval a \<noteq> 0" "arg_save_checkpoint a = Some f"
  shows "checkpoint_epochs (outcome_trace (main example_world (gpt_config 64) a no_files (\<lambda>_. 0)))
           = filter (checkpoint_due a 0) [0..arg_epochs a - 1]"
proof -
  let ?cfg = "gpt_config 64"
  obtain m g1 where m: "GPT_init ?cfg 65 (\<lambda>_. 0) = Inr (m, g1)" "wf_GPT ?cfg 65 m"
    using GPT_init_ok [of ?cfg 65 "\<lambda>_. 0"] by (auto simp: gpt_config_def)
  let ?s = "\<lparr>st_DATA = (\<lambda>sp. case sp of TRAIN \<Rightarrow> replicate 300 0 | EVAL \<Rightarrow> replicate 300 0),
              st_model = m, st_optim = w_AdamW example_world m, st_loss = LossInf, st_rng = g1,
              st_fs = no_files,
              st_trace = [EvGetTokenizer, EvPreprocessData, EvGPT 65, EvAdamW]\<rparr>"
  have step: "\<And>m opt b g. wf_GPT ?cfg 65 m \<Longrightarrow> wf_GPT ?cfg 65 (fst (w_step example_world m opt b g))"
    by (simp add: example_world_def)
  have B: "0 < BATCH_SIZE ?cfg" by (simp add: gpt_config_def)
  have L: "\<And>sp. SEQ_LEN ?cfg < length (st_DATA ?s sp)"
    by (simp add: gpt_config_def split: split.splits)
  have v: "\<And>sp. list_all (\<lambda>t. 0 \<le> t \<and> t < int 65) (st_DATA ?s sp)"
    by (simp add: list_all_iff split: split.splits)
  have wf: "wf_GPT ?cfg 65 (st_model ?s)" using m(2) by simp
  obtain s' where s': "train_loop example_world ?cfg a 0 [0..arg_epochs a - 1] ?s = Inr s'"
      "checkpoint_epochs (st_trace s') =
         checkpoint_epochs (st_trace ?s) @ filter (checkpoint_due a 0) [0..arg_epochs a - 1]"
    using train_loop_ok [where s = ?s and w = example_world and epoch = 0 and lo = 0
        and hi = "arg_epochs a - 1", OF step B e(3,4) L v wf] by blast
  have tk: "w_get_tokenizer example_world = Inr \<lparr>get_vocab_size = 65, decode = (\<lambda>_. [])\<rparr>"
    and pd: "w_preprocess_data example_world = Inr (replicate 300 0, replicate 300 0)"
    by (simp_all add: example_world_def)
  have "main example_world ?cfg a no_files (\<lambda>_. 0) = Returned (st_trace s') (st_fs s')"
    using main_training_run [OF tk pd, of ?cfg "\<lambda>_. 0" m g1 a no_files] m(1) e(1,2) s'(1)
    by (simp add: truthy_str_def truthy_int_def)
  then show ?thesis
    using s'(2)
    by (simp add: outcome_trace_def checkpoint_epochs_Nil checkpoint_epochs_Cons)
qed

text \<open>
  Claim C6 as stated fails when the starting epoch is also the final one: a run of one
  epoch from epoch 0 saves a checkpoint at epoch 0.
\<close>

theorem checkpoint_at_start_counterexample:
  "checkpoint_epochs (outcome_trace
     (main example_world (gpt_config 64) (example_args\<lparr>arg_epochs := 1\<rparr>) no_files (\<lambda>_. 0)))
   = [0]"
proof -
  have "checkpoint_epochs (outcome_trace
     (main example_world (gpt_config 64) (example_args\<lparr>arg_epochs := 1\<rparr>) no_files (\<lambda>_. 0)))
     = filter (checkpoint_due (example_args\<lparr>arg_epochs := 1\<rparr>) 0)
         [0..arg_epochs (example_args\<lparr>arg_epochs := 1\<rparr>) - 1]"
    by (rule example_main_checkpoints) (simp_all add: example_args_def)
  then show ?thesis by (simp add: example_args_def checkpoint_due_def)
qed

text \<open>
  Claim C6, amended. When the steps of a run of the training loop from epoch \<open>start\<close>
  to epoch \<open>epochs - 1\<close> succeed (a model of the constructor's shapes which the
  optimizer step keeps, token streams longer than \<open>SEQ_LEN\<close> of valid ids, a
  save path, an interval other than 0), the loop returns and the epochs at which it
  saved a checkpoint are exactly those \<open>i\<close> with \<open>i \<noteq> start\<close> and \<open>i\<close> a multiple of the
  interval, or \<open>i = epochs - 1\<close>; the file then holds the checkpoint of the final
  epoch. The starting epoch is saved only when it is also the final epoch.
\<close>

theorem train_loop_checkpoints:
  assumes "\<And>m opt b g. wf_GPT cfg V m \<Longrightarrow> wf_GPT cfg V (fst (w_step w m opt b g))"
    and "0 < BATCH_SIZE cfg"
    and "arg_checkpoint_interval a \<noteq> 0" and "arg_save_checkpoint a = Some f"
    and "\<And>sp. SEQ_LEN cfg < length (st_DATA s sp)"
    and "\<And>sp. list_all (\<lambda>t. 0 \<le> t \<and> t < int V) (st_DATA s sp)"
    and "wf_GPT cfg V (st_model s)"
  shows "\<exists>s'. train_loop w cfg a start [start..arg_epochs a - 1] s = Inr s' \<and>
           checkpoint_epochs (st_trace s') =
             checkpoint_epochs (st_trace s) @
             filter (\<lambda>i. (i \<noteq> start \<and> i mod arg_checkpoint_interval a = 0) \<or> i = arg_epochs a - 1)
               [start..arg_epochs a - 1] \<and>
           (start \<le> arg_epochs a - 1 \<longrightarrow> holds_epoch (st_fs s') f (arg_epochs a - 1))"
proof -
  have d: "checkpoint_due a start = (\<lambda>i. (i \<noteq> start \<and> i mod arg_checkpoint_interval a = 0) \<or> i = arg_epochs a - 1)"
    by (rule ext) (simp add: checkpoint_due_def)
  have "checkpoint_due a start (arg_epochs a - 1)" by (simp add: checkpoint_due_def)
  then show ?thesis
    using train_loop_ok [where s = s and epoch = start and lo = start and hi = "arg_epochs a - 1",
        OF assms(1,2,3,4,5,6,7)] unfolding d by blast
qed

theorem train_loop_checkpoints_witness:
  "\<exists>m g1 s'. GPT_init (gpt_config 64) 65 (\<lambda>_. 0) = Inr (m, g1) \<and>
     train_loop example_world (gpt_config 64)
       (example_args\<lparr>arg_epochs := 3, arg_checkpoint_interval := 1\<rparr>) 0 [0..2]
       \<lparr>st_DATA = (\<lambda>sp. replicate 300 0), st_model = m, st_optim = (), st_loss = LossInf,
        st_rng = g1, st_fs = no_files, st_trace = []\<rparr> = Inr s' \<and>
     checkpoint_epochs (st_trace s') = [1, 2] \<and> holds_epoch (st_fs s') ''ckpt.pt'' 2"
proof -
  let ?cfg = "gpt_config 64"
  let ?a = "example_args\<lparr>arg_epochs := 3, arg_checkpoint_interval := 1\<rparr>"
  obtain m g1 where m: "GPT_init ?cfg 65 (\<lambda>_. 0) = Inr (m, g1)" "wf_GPT ?cfg 65 m"
    using GPT_init_ok [of ?cfg 65 "\<lambda>_. 0"] by (auto simp: gpt_config_def)
  let ?s = "\<lparr>st_DATA = (\<lambda>sp. replicate 300 0), st_model = m, st_optim = (), st_loss = LossInf,
        st_rng = g1, st_fs = no_files, st_trace = []\<rparr>"
  have h1: "\<And>m opt b g. wf_GPT ?cfg 65 m \<Longrightarrow> wf_GPT ?cfg 65 (fst (w_step example_world m opt b g))"
    by (simp add: example_world_def)
  have h2: "0 < BATCH_SIZE ?cfg" by (simp add: gpt_config_def)
  have h3: "arg_checkpoint_interval ?a \<noteq> 0" by simp
  have h4: "arg_save_checkpoint ?a = Some ''ckpt.pt''" by (simp add: example_args_def)
  have h5: "\<And>sp. SEQ_LEN ?cfg < length (st_DATA ?s sp)" by (simp add: gpt_config_def)
  have h6: "\<And>sp. list_all (\<lambda>t. 0 \<le> t \<and> t < int 65) (st_DATA ?s sp)" by (simp add: list_all_iff)
  have h7: "wf_GPT ?cfg 65 (st_model ?s)" using m(2) by simp
  have u: "[0..2::int] = [0, 1, 2]" by (simp add: upto_rec1)
  show ?thesis
    using train_loop_checkpoints [where s = ?s and w = example_world and a = ?a and start = 0,
        OF h1 h2 h3 h4 h5 h6 h7] m(1)
    by (simp add: checkpoint_epochs_Nil u)
qed




text \<open>
  Claim C7 at the input \<^verbatim>\<open>--generate 50\<close>: the run announces an output of length 50,
  skips the training loop, and calls \<open>generate\<close> from the context \<open>[[0]]\<close> with 300 new
  tokens, so that the sequence has 301 tokens whatever the flag says.
\<close>

theorem main_generate_ignores_length_flag:
  "\<exists>out. shape2 1 301 out \<and>
     main example_world (gpt_config 64) (example_args\<lparr>arg_generate := Some 50\<rparr>) no_files (\<lambda>_. 0)
     = Returned [EvGetTokenizer, EvPreprocessData, EvGPT 65, EvAdamW,
                 EvPrintGenerating 50, EvGenerate 300 out, EvPrint []] no_files"
proof -
  have "\<exists>out. shape2 1 301 out \<and>
     main example_world (gpt_config 64) (example_args\<lparr>arg_generate := Some 50\<rparr>) no_files (\<lambda>_. 0)
     = Returned [EvGetTokenizer, EvPreprocessData,
                 EvGPT (get_vocab_size \<lparr>get_vocab_size = 65, decode = (\<lambda>_. [])\<rparr>), EvAdamW,
                 EvPrintGenerating 50, EvGenerate 300 out,
                 EvPrint (decode \<lparr>get_vocab_size = 65, decode = (\<lambda>_. [])\<rparr> (hd out))] no_files"
    by (rule main_generate_only_ok [where d = "(replicate 300 0, replicate 300 0)"])
      (simp_all add: example_world_def gpt_config_def example_args_def truthy_str_def)
  then show ?thesis by simp
qed

text \<open>
  Claim C9 on the generation-only path: the model that \<open>main\<close> passes to \<open>generate\<close>
  is the one the constructor returned, whose dropout modules are in training mode.
  In each of its heads the attention weight at position \<open>(0, 0)\<close>, which the softmax
  sets to 1, is another number after the dropout step.
\<close>

theorem main_generates_with_dropout_active:
  "\<exists>m g1 out g2.
     GPT_init (gpt_config 64) 65 (\<lambda>_. 0) = Inr (m, g1) \<and>
     GPT_generate (gpt_config 64) m [[0]] 300 g1 = Inr (out, g2) \<and>
     main example_world (gpt_config 64) (example_args\<lparr>arg_generate := Some 300\<rparr>) no_files (\<lambda>_. 0)
       = Returned [EvGetTokenizer, EvPreprocessData, EvGPT 65, EvAdamW,
                   EvPrintGenerating 300, EvGenerate 300 out, EvPrint []] no_files \<and>
     blocks m \<noteq> [] \<and>
     list_all (\<lambda>b. heads (sa b) \<noteq> [] \<and>
        list_all (\<lambda>h. training (head_dropout h) \<and>
           (\<exists>wei wei' g'. Head_attention h [[replicate 384 0]] = Inr wei \<and>
              Head_weights h [[replicate 384 0]] g1 = Inr (wei', g') \<and>
              wei ! 0 ! 0 ! 0 = 1 \<and> wei' ! 0 ! 0 ! 0 \<noteq> 1)) (heads (sa b))) (blocks m)"
proof -
  let ?cfg = "gpt_config 64"
  let ?tk = "\<lparr>get_vocab_size = 65, decode = (\<lambda>_. [])\<rparr>"
  let ?x = "[[replicate 384 (0::real)]]"
  obtain m g1 where m: "GPT_init ?cfg 65 (\<lambda>_. 0) = Inr (m, g1)" "wf_GPT ?cfg 65 m"
    using GPT_init_ok [of ?cfg 65 "\<lambda>_. 0"] by (auto simp: gpt_config_def)
  note fr = GPT_init_fresh [OF m(1)]
  have S: "0 < SEQ_LEN ?cfg" by (simp add: gpt_config_def)
  have h3: "shape2 1 1 [[0::int]]" by (simp add: shape2_def)
  have h4: "valid_tokens 65 [[0]]" by (simp add: valid_tokens_def)
  obtain out g2 where out: "generate_loop ?cfg m 300 [[0]] g1 = Inr (out, g2)" "shape2 1 (1 + 300) out"
    using generate_loop_prefix [OF m(2) S h3 h4, of 300 g1] by auto
  have o: "GPT_generate ?cfg m [[0]] 300 g1 = Inr (out, g2)" "out \<noteq> []"
    using out by (auto simp: GPT_generate_def shape2_def)
  have tk: "w_get_tokenizer example_world = Inr ?tk"
    and pd: "w_preprocess_data example_world = Inr (replicate 300 0, replicate 300 0)"
    by (simp_all add: example_world_def)
  have mn: "main example_world ?cfg (example_args\<lparr>arg_generate := Some 300\<rparr>) no_files (\<lambda>_. 0)
       = Returned [EvGetTokenizer, EvPreprocessData, EvGPT 65, EvAdamW,
                   EvPrintGenerating 300, EvGenerate 300 out, EvPrint []] no_files"
    using main_generate_only [OF tk pd, of ?cfg "\<lambda>_. 0" m g1
        "example_args\<lparr>arg_generate := Some 300\<rparr>" 300 out g2 no_files] m(1) o
    by (simp add: example_args_def truthy_str_def)
  have ne: "blocks m \<noteq> []" using fr by (auto simp: gpt_config_def)
  have sh: "shape3 1 1 (EMBED_SIZE ?cfg) ?x" by (simp add: shape3_def gpt_config_def)
  have blk: "heads (sa b) \<noteq> [] \<and>
        list_all (\<lambda>h. training (head_dropout h) \<and>
           (\<exists>wei wei' g'. Head_attention h ?x = Inr wei \<and> Head_weights h ?x g1 = Inr (wei', g') \<and>
              wei ! 0 ! 0 ! 0 = 1 \<and> wei' ! 0 ! 0 ! 0 \<noteq> 1)) (heads (sa b))"
    if b: "b \<in> set (blocks m)" for b
  proof -
    have wb: "wf_Block ?cfg b" using m(2) b by (simp add: wf_GPT_def list_all_iff)
    note d = wf_MultiHeadAttention_D [of ?cfg "sa b"]
    have wh: "heads (sa b) \<noteq> []"
        "\<forall>h \<in> set (heads (sa b)). wf_Head ?cfg (head_size (hd (heads (sa b)))) h"
      using wb d by (simp_all add: wf_Block_def)
    have fb: "\<forall>h \<in> set (heads (sa b)). head_dropout h = nn_Dropout (DROPOUT ?cfg)"
      using fr b by (auto simp: Block_fresh_def Block_dropouts_def)
    have "training (head_dropout h) \<and>
           (\<exists>wei wei' g'. Head_attention h ?x = Inr wei \<and> Head_weights h ?x g1 = Inr (wei', g') \<and>
              wei ! 0 ! 0 ! 0 = 1 \<and> wei' ! 0 ! 0 ! 0 \<noteq> 1)" if h: "h \<in> set (heads (sa b))" for h
    proof -
      have t: "training (head_dropout h)" "0 < drop_p (head_dropout h)" "drop_p (head_dropout h) < 1"
        using fb h by (simp_all add: nn_Dropout_def gpt_config_def)
      have w: "wf_Head ?cfg (head_size (hd (heads (sa b)))) h" using wh(2) h by simp
      obtain wei wei' g' where "Head_attention h ?x = Inr wei" "Head_weights h ?x g1 = Inr (wei', g')"
          "wei ! 0 ! 0 ! 0 = 1" "wei' ! 0 ! 0 ! 0 \<noteq> wei ! 0 ! 0 ! 0"
        using Head_weights_training_differ [OF sh _ _ _ w t, of g1] S by auto
      then show ?thesis using t(1) by auto
    qed
    then show ?thesis using wh(1) by (simp add: list_all_iff)
  qed
  show ?thesis
    using m(1) o(1) mn ne blk by (auto simp: list_all_iff)
qed

section \<open>Saving and loading a checkpoint\<close>











section \<open>Sampling leaves the model and the context as they are\<close>







end
